theory Spec2Isabelle
  imports Main "HOL-Library.Word"
begin

unbundle bit_operations_syntax

section \<open>Machine types and constants of riscv\_cpu.c\<close>

text \<open>
  The emulator is built for a 64-bit target: \<open>target_ulong\<close> is \<open>uint64_t\<close>,
  \<open>FLEN\<close> is 64 and so \<open>fp_uint\<close> is \<open>uint64_t\<close> as well.  C's unsigned arithmetic
  is the arithmetic of \<open>'a word\<close>; an \<open>int\<close> constant that meets a \<open>uint64_t\<close> operand
  is converted to 64 bits first, so the macro constants are given at the width they are
  used at.
\<close>

type_synonym target_ulong = "64 word"
type_synonym fp_uint = "64 word"

abbreviation (input) TLB_SIZE :: nat where "TLB_SIZE \<equiv> 256"

abbreviation (input) CAUSE_FAULT_FETCH :: int where "CAUSE_FAULT_FETCH \<equiv> 0x1"
abbreviation (input) CAUSE_FAULT_LOAD :: int where "CAUSE_FAULT_LOAD \<equiv> 0x5"
abbreviation (input) CAUSE_FAULT_STORE :: int where "CAUSE_FAULT_STORE \<equiv> 0x7"
abbreviation (input) CAUSE_FETCH_PAGE_FAULT :: int where "CAUSE_FETCH_PAGE_FAULT \<equiv> 0xc"
abbreviation (input) CAUSE_LOAD_PAGE_FAULT :: int where "CAUSE_LOAD_PAGE_FAULT \<equiv> 0xd"
abbreviation (input) CAUSE_STORE_PAGE_FAULT :: int where "CAUSE_STORE_PAGE_FAULT \<equiv> 0xf"

abbreviation (input) CAUSE_MASK :: "32 word" where "CAUSE_MASK \<equiv> 0x1f"
abbreviation (input) CAUSE_INTERRUPT :: "32 word" where "CAUSE_INTERRUPT \<equiv> 0x80000000"

abbreviation (input) PRV_U :: "8 word" where "PRV_U \<equiv> 0"
abbreviation (input) PRV_S :: "8 word" where "PRV_S \<equiv> 1"
abbreviation (input) PRV_H :: "8 word" where "PRV_H \<equiv> 2"
abbreviation (input) PRV_M :: "8 word" where "PRV_M \<equiv> 3"

abbreviation (input) MCPUID_SUPER :: "32 word" where "MCPUID_SUPER \<equiv> 0x40000"
abbreviation (input) MCPUID_USER :: "32 word" where "MCPUID_USER \<equiv> 0x100000"
abbreviation (input) MCPUID_I :: "32 word" where "MCPUID_I \<equiv> 0x100"
abbreviation (input) MCPUID_M :: "32 word" where "MCPUID_M \<equiv> 0x1000"
abbreviation (input) MCPUID_A :: "32 word" where "MCPUID_A \<equiv> 0x1"
abbreviation (input) MCPUID_F :: "32 word" where "MCPUID_F \<equiv> 0x20"
abbreviation (input) MCPUID_D :: "32 word" where "MCPUID_D \<equiv> 0x8"
abbreviation (input) MCPUID_C :: "32 word" where "MCPUID_C \<equiv> 0x4"

abbreviation (input) MSTATUS_SPIE_SHIFT :: nat where "MSTATUS_SPIE_SHIFT \<equiv> 5"
abbreviation (input) MSTATUS_MPIE_SHIFT :: nat where "MSTATUS_MPIE_SHIFT \<equiv> 7"
abbreviation (input) MSTATUS_SPP_SHIFT :: nat where "MSTATUS_SPP_SHIFT \<equiv> 8"
abbreviation (input) MSTATUS_MPP_SHIFT :: nat where "MSTATUS_MPP_SHIFT \<equiv> 11"
abbreviation (input) MSTATUS_FS_SHIFT :: nat where "MSTATUS_FS_SHIFT \<equiv> 13"
abbreviation (input) MSTATUS_UXL_SHIFT :: nat where "MSTATUS_UXL_SHIFT \<equiv> 32"
abbreviation (input) MSTATUS_SXL_SHIFT :: nat where "MSTATUS_SXL_SHIFT \<equiv> 34"

abbreviation (input) MSTATUS_SIE :: "64 word" where "MSTATUS_SIE \<equiv> 0x2"
abbreviation (input) MSTATUS_MIE :: "64 word" where "MSTATUS_MIE \<equiv> 0x8"
abbreviation (input) MSTATUS_SPIE :: "64 word" where "MSTATUS_SPIE \<equiv> 0x20"
abbreviation (input) MSTATUS_MPIE :: "64 word" where "MSTATUS_MPIE \<equiv> 0x80"
abbreviation (input) MSTATUS_SPP :: "64 word" where "MSTATUS_SPP \<equiv> 0x100"
abbreviation (input) MSTATUS_MPP :: "64 word" where "MSTATUS_MPP \<equiv> 0x1800"
abbreviation (input) MSTATUS_FS :: "64 word" where "MSTATUS_FS \<equiv> 0x6000"
abbreviation (input) MSTATUS_XS :: "64 word" where "MSTATUS_XS \<equiv> 0x18000"
abbreviation (input) MSTATUS_MPRV :: "64 word" where "MSTATUS_MPRV \<equiv> 0x20000"
abbreviation (input) MSTATUS_SUM :: "64 word" where "MSTATUS_SUM \<equiv> 0x40000"
abbreviation (input) MSTATUS_MXR :: "64 word" where "MSTATUS_MXR \<equiv> 0x80000"
abbreviation (input) MSTATUS_TVM :: "64 word" where "MSTATUS_TVM \<equiv> 0x100000"
abbreviation (input) MSTATUS_TW :: "64 word" where "MSTATUS_TW \<equiv> 0x200000"
abbreviation (input) MSTATUS_TSR :: "64 word" where "MSTATUS_TSR \<equiv> 0x400000"
abbreviation (input) MSTATUS_UXL_MASK :: "64 word" where "MSTATUS_UXL_MASK \<equiv> 0x300000000"
abbreviation (input) MSTATUS_SXL_MASK :: "64 word" where "MSTATUS_SXL_MASK \<equiv> 0xC00000000"

abbreviation (input) PG_SHIFT :: nat where "PG_SHIFT \<equiv> 12"
abbreviation (input) PG_MASK :: "64 word" where "PG_MASK \<equiv> 0xFFF"

text \<open>\<open>ASID_BITS\<close> is 0, so \<open>SATP_MASK\<close> keeps the mode (bits 63:60) and the PPN
  (bits 43:0).\<close>

abbreviation (input) SATP_MASK :: "64 word" where "SATP_MASK \<equiv> 0xF0000FFFFFFFFFFF"

abbreviation (input) MAX_TRIGGERS :: nat where "MAX_TRIGGERS \<equiv> 1"

abbreviation (input) MCONTROL_M :: "64 word" where "MCONTROL_M \<equiv> 0x40"
abbreviation (input) MCONTROL_EXECUTE :: "64 word" where "MCONTROL_EXECUTE \<equiv> 0x4"

text \<open>
  Modelled from the spec: the \<open>MIP_*\<close> and \<open>MIE_*\<close> bit masks are declared in
  riscv\_cpu.h, which is not among the sources.  The spec names the bits (\<open>MTIP\<close>,
  \<open>MEIP\<close>, \<open>SEIP\<close>) and defers to the RISC-V privileged architecture for their
  positions; the device tree built by the machine file uses the same numbers (machine
  software 3, machine timer 7, supervisor external 9, machine external 11).
\<close>

abbreviation (input) MIP_SSIP :: "64 word" where "MIP_SSIP \<equiv> 0x2"
abbreviation (input) MIP_MSIP :: "64 word" where "MIP_MSIP \<equiv> 0x8"
abbreviation (input) MIP_STIP :: "64 word" where "MIP_STIP \<equiv> 0x20"
abbreviation (input) MIP_MTIP :: "64 word" where "MIP_MTIP \<equiv> 0x80"
abbreviation (input) MIP_SEIP :: "64 word" where "MIP_SEIP \<equiv> 0x200"
abbreviation (input) MIP_MEIP :: "64 word" where "MIP_MEIP \<equiv> 0x800"
abbreviation (input) MIE_SSIE :: "64 word" where "MIE_SSIE \<equiv> 0x2"
abbreviation (input) MIE_MSIE :: "64 word" where "MIE_MSIE \<equiv> 0x8"
abbreviation (input) MIE_STIE :: "64 word" where "MIE_STIE \<equiv> 0x20"
abbreviation (input) MIE_MTIE :: "64 word" where "MIE_MTIE \<equiv> 0x80"
abbreviation (input) MIE_SEIE :: "64 word" where "MIE_SEIE \<equiv> 0x200"
abbreviation (input) MIE_MEIE :: "64 word" where "MIE_MEIE \<equiv> 0x800"

section \<open>The CPU state\<close>

record TLBEntry =
  vaddr :: target_ulong
  mem_addend :: "64 word"

text \<open>
  \<open>struct RISCVCPUState\<close>, field by field.  Arrays are lists of the declared length.
  \<open>BOOL\<close> fields are booleans: a C value is stored as "is not zero".  The pointer to
  the memory map is not a field: the functions that use the map take it as an argument.
  \<open>stdout_bytes\<close> is not a field of the C struct: it records what \<open>putchar\<close> has
  written, the one output of this file a claim can depend on.  Diagnostics printed to
  \<open>stderr\<close> are not modelled.
\<close>

record RISCVCPUState =
  pc :: target_ulong
  reg :: "target_ulong list"
  reg_prior :: "target_ulong list"
  reg_ts :: "64 word list"
  most_recently_written_reg :: int
  fp_reg :: "fp_uint list"
  fp_reg_ts :: "64 word list"
  most_recently_written_fp_reg :: int
  fflags :: "32 word"
  frm :: "8 word"
  cur_xlen :: "8 word"
  priv :: "8 word"
  fs :: "8 word"
  mxl :: "8 word"
  insn_counter :: "64 word"
  minstret :: "64 word"
  mcycle :: "64 word"
  stop_the_counter :: bool
  power_down_flag :: bool
  terminate_simulation :: bool
  pending_exception :: int
  pending_tval :: target_ulong
  mstatus :: target_ulong
  mtvec :: target_ulong
  mscratch :: target_ulong
  mepc :: target_ulong
  mcause :: target_ulong
  mtval :: target_ulong
  mvendorid :: target_ulong
  marchid :: target_ulong
  mimpid :: target_ulong
  mhartid :: target_ulong
  misa :: "32 word"
  mie :: "32 word"
  mip :: "32 word"
  medeleg :: "32 word"
  mideleg :: "32 word"
  mcounteren :: "32 word"
  tselect :: "32 word"
  tdata1 :: "target_ulong list"
  tdata2 :: "target_ulong list"
  tdata3 :: "target_ulong list"
  mhpmevent :: "target_ulong list"
  stvec :: target_ulong
  sscratch :: target_ulong
  sepc :: target_ulong
  scause :: target_ulong
  stval :: target_ulong
  satp :: "64 word"
  scounteren :: "32 word"
  dcsr :: target_ulong
  dpc :: target_ulong
  dscratch :: target_ulong
  load_res :: target_ulong
  store_repair_addr :: target_ulong
  tlb_read :: "TLBEntry list"
  tlb_write :: "TLBEntry list"
  tlb_code :: "TLBEntry list"
  terminating_event :: "string option"
  stdout_bytes :: "8 word list"

section \<open>TLB flush and mstatus\<close>

text \<open>\<open>tlb_init\<close> sets the tag of every entry of the three TLBs to all-ones and
  leaves the addends as they are.\<close>

definition tlb_init :: "RISCVCPUState \<Rightarrow> RISCVCPUState" where
  "tlb_init s =
     s\<lparr>tlb_read := map (\<lambda>e. e\<lparr>vaddr := - 1\<rparr>) (tlb_read s),
       tlb_write := map (\<lambda>e. e\<lparr>vaddr := - 1\<rparr>) (tlb_write s),
       tlb_code := map (\<lambda>e. e\<lparr>vaddr := - 1\<rparr>) (tlb_code s)\<rparr>"

definition tlb_flush_all :: "RISCVCPUState \<Rightarrow> RISCVCPUState" where
  "tlb_flush_all s = tlb_init s"

abbreviation (input) SSTATUS_MASK :: "64 word" where
  "SSTATUS_MASK \<equiv> MSTATUS_SIE OR MSTATUS_SPIE OR MSTATUS_SPP OR MSTATUS_FS OR MSTATUS_SUM
     OR MSTATUS_MXR OR MSTATUS_UXL_MASK"

abbreviation (input) MSTATUS_MASK :: "64 word" where
  "MSTATUS_MASK \<equiv> MSTATUS_SIE OR MSTATUS_MIE OR MSTATUS_SPIE OR MSTATUS_MPIE OR MSTATUS_SPP
     OR MSTATUS_MPP OR MSTATUS_FS OR MSTATUS_MPRV OR MSTATUS_SUM OR MSTATUS_MXR
     OR MSTATUS_TVM OR MSTATUS_TW OR MSTATUS_TSR OR MSTATUS_UXL_MASK OR MSTATUS_SXL_MASK"

abbreviation (input) COUNTEREN_MASK :: "64 word" where "COUNTEREN_MASK \<equiv> 0x5"

text \<open>
  \<open>get_mstatus\<close>: the stored \<open>mstatus\<close> with the \<open>FS\<close> field taken from \<open>fs\<close>, masked,
  and the \<open>SD\<close> bit derived.  The shift \<open>1 << (cur_xlen - 1)\<close> is defined in C only
  for \<open>1 \<le> cur_xlen \<le> 64\<close>.
\<close>

definition get_mstatus :: "RISCVCPUState \<Rightarrow> target_ulong \<Rightarrow> target_ulong" where
  "get_mstatus s msk =
     (let val = (mstatus s OR push_bit MSTATUS_FS_SHIFT (ucast (fs s))) AND msk;
          sd = (if val AND MSTATUS_FS = MSTATUS_FS then True
                else val AND MSTATUS_XS = MSTATUS_XS)
      in if sd then val OR push_bit (unat (cur_xlen s) - 1) 1 else val)"

definition get_base_from_xlen :: "int \<Rightarrow> int" where
  "get_base_from_xlen xlen = (if xlen = 32 then 1 else if xlen = 64 then 2 else 3)"

text \<open>
  \<open>set_mstatus\<close>.  The C expression \<open>s->mstatus & ~mask | val & mask\<close> parses as
  \<open>(s->mstatus & ~mask) | (val & mask)\<close>.  The last statement ORs the constant
  \<open>(2 << 32) | (2 << 34)\<close> into the result.
\<close>

definition set_mstatus :: "RISCVCPUState \<Rightarrow> target_ulong \<Rightarrow> RISCVCPUState" where
  "set_mstatus s val =
     (let mod_bits = mstatus s XOR val;
          s1 = (if mod_bits AND (MSTATUS_MPRV OR MSTATUS_SUM OR MSTATUS_MXR) \<noteq> 0
                then tlb_flush_all s
                else if mstatus s AND MSTATUS_MPRV \<noteq> 0 \<and> mod_bits AND MSTATUS_MPP \<noteq> 0
                then tlb_flush_all s
                else s);
          s2 = s1\<lparr>fs := ucast (drop_bit MSTATUS_FS_SHIFT val AND 3)\<rparr>;
          msk = MSTATUS_MASK AND NOT MSTATUS_FS;
          s3 = s2\<lparr>mstatus := (mstatus s2 AND NOT msk) OR (val AND msk)\<rparr>
      in s3\<lparr>mstatus := mstatus s3 OR (push_bit MSTATUS_UXL_SHIFT 2 OR push_bit MSTATUS_SXL_SHIFT 2)\<rparr>)"

definition counter_access_ok :: "RISCVCPUState \<Rightarrow> 32 word \<Rightarrow> bool" where
  "counter_access_ok s csr =
     (let counteren :: 32 word =
            (if priv s = PRV_U then mcounteren s AND scounteren s
             else if priv s = PRV_S then mcounteren s
             else if priv s = PRV_M then NOT 0
             else 0)
      in (drop_bit (unat (csr AND 31)) counteren AND 1) \<noteq> 0)"

section \<open>Reading a CSR\<close>

text \<open>
  \<open>csr_read\<close> returns the C return code (0 or -1) and what it stored through \<open>pval\<close>:
  \<open>None\<close> on the early returns that leave \<open>*pval\<close> alone, \<open>Some 0\<close> at the
  \<open>invalid_csr\<close> label.  The \<open>switch\<close> is a chain of tests in the order of the case
  labels; the runs of consecutive labels (\<open>0xb03 .. 0xb1f\<close>, \<open>0xc03 .. 0xc1f\<close>,
  \<open>0x323 .. 0x33f\<close>) are written as ranges.  Shifts by \<open>cur_xlen - k\<close> are defined
  in C only when the amount is between 0 and 63.
\<close>

definition csr_read :: "RISCVCPUState \<Rightarrow> 32 word \<Rightarrow> bool \<Rightarrow> int \<times> target_ulong option" where
  "csr_read s csr will_write =
     (if csr AND 0xc00 = 0xc00 \<and> will_write then (- 1, None)
      else if ucast (priv s) < (drop_bit 8 csr AND 3) then (- 1, None)
      else if csr = 0x001 then
        (if fs s = 0 then (- 1, None) else (0, Some (ucast (fflags s))))
      else if csr = 0x002 then
        (if fs s = 0 then (- 1, None) else (0, Some (ucast (frm s))))
      else if csr = 0x003 then
        (if fs s = 0 then (- 1, None)
         else (0, Some (ucast (fflags s OR push_bit 5 (ucast (frm s))))))
      else if csr = 0x100 then (0, Some (get_mstatus s SSTATUS_MASK))
      else if csr = 0x104 then (0, Some (ucast (mie s AND mideleg s)))
      else if csr = 0x105 then (0, Some (stvec s))
      else if csr = 0x106 then (0, Some (ucast (scounteren s)))
      else if csr = 0x140 then (0, Some (sscratch s))
      else if csr = 0x141 then (0, Some (sepc s))
      else if csr = 0x142 then (0, Some (scause s))
      else if csr = 0x143 then (0, Some (stval s))
      else if csr = 0x144 then (0, Some (ucast (mip s AND mideleg s)))
      else if csr = 0x180 then
        (if priv s = PRV_S \<and> mstatus s AND MSTATUS_TVM \<noteq> 0 then (- 1, None)
         else (0, Some (satp s)))
      else if csr = 0x300 then (0, Some (get_mstatus s (- 1)))
      else if csr = 0x301 then
        (0, Some (ucast (misa s) OR push_bit (unat (cur_xlen s) - 2) (ucast (mxl s))))
      else if csr = 0x302 then (0, Some (ucast (medeleg s)))
      else if csr = 0x303 then (0, Some (ucast (mideleg s)))
      else if csr = 0x304 then (0, Some (ucast (mie s)))
      else if csr = 0x305 then (0, Some (mtvec s))
      else if csr = 0x306 then (0, Some (ucast (mcounteren s)))
      else if csr = 0x340 then (0, Some (mscratch s))
      else if csr = 0x341 then (0, Some (mepc s))
      else if csr = 0x342 then (0, Some (mcause s))
      else if csr = 0x343 then (0, Some (mtval s))
      else if csr = 0x344 then (0, Some (ucast (mip s)))
      else if csr = 0x7a0 then (0, Some (ucast (tselect s)))
      else if csr = 0x7a1 then (0, Some (tdata1 s ! unat (tselect s)))
      else if csr = 0x7a2 then (0, Some (tdata2 s ! unat (tselect s)))
      else if csr = 0x7a3 then (0, Some (tdata3 s ! unat (tselect s)))
      else if csr = 0x7b0 then (0, Some (dcsr s))
      else if csr = 0x7b1 then (0, Some (dpc s))
      else if csr = 0x7b2 then (0, Some (dscratch s))
      else if csr = 0xb00 \<or> csr = 0xc00 then
        (if counter_access_ok s csr then (0, Some (mcycle s)) else (- 1, Some 0))
      else if csr = 0xb02 \<or> csr = 0xc02 then
        (if counter_access_ok s csr then (0, Some (minstret s)) else (- 1, Some 0))
      else if (0xb03 \<le> csr \<and> csr \<le> 0xb1f) \<or> (0xc03 \<le> csr \<and> csr \<le> 0xc1f) then
        (if counter_access_ok s csr then (0, Some 0) else (- 1, Some 0))
      else if csr = 0xb80 \<or> csr = 0xc80 then
        (if cur_xlen s = 32 \<and> counter_access_ok s csr
         then (0, Some (drop_bit 32 (mcycle s))) else (- 1, Some 0))
      else if csr = 0xb82 \<or> csr = 0xc82 then
        (if cur_xlen s = 32 \<and> counter_access_ok s csr
         then (0, Some (drop_bit 32 (minstret s))) else (- 1, Some 0))
      else if csr = 0xf14 then (0, Some (mhartid s))
      else if csr = 0xf13 then (0, Some (mimpid s))
      else if csr = 0xf12 then (0, Some (marchid s))
      else if csr = 0xf11 then (0, Some (mvendorid s))
      else if 0x323 \<le> csr \<and> csr \<le> 0x33f then
        (0, Some (mhpmevent s ! unat (csr AND 0x1F)))
      else if csr = 0x81F \<or> csr = 0x8D0 \<or> csr = 0x8D1 then (0, Some 0)
      else (- 1, Some 0))"

definition set_frm :: "RISCVCPUState \<Rightarrow> 32 word \<Rightarrow> RISCVCPUState" where
  "set_frm s val = s\<lparr>frm := ucast val\<rparr>"

section \<open>The validation CSRs\<close>

text \<open>
  validation\_events.h: the command tag sits in bits 63:56, the payload below it.
  The fields of \<open>struct event_info\<close> are prefixed with \<open>ev_\<close>.
\<close>

abbreviation (input) CMD_OFFSET :: nat where "CMD_OFFSET \<equiv> 56"
abbreviation (input) PAYLOAD_MASK :: "64 word" where "PAYLOAD_MASK \<equiv> 0xFFFFFFFFFFFFFF"
abbreviation (input) VALIDATION_CMD_LINUX :: "64 word" where "VALIDATION_CMD_LINUX \<equiv> 0x81"
abbreviation (input) VALIDATION_CMD_BENCH :: "64 word" where "VALIDATION_CMD_BENCH \<equiv> 0x82"
abbreviation (input) LINUX_CMD_VALUE_BOOT_DONE :: "64 word" where "LINUX_CMD_VALUE_BOOT_DONE \<equiv> 1"
abbreviation (input) LINUX_CMD_VALUE_TERMINATE :: "64 word" where "LINUX_CMD_VALUE_TERMINATE \<equiv> 2"
abbreviation (input) BENCH_CMD_VALUE_START :: "64 word" where "BENCH_CMD_VALUE_START \<equiv> 1"
abbreviation (input) BENCH_CMD_VALUE_END :: "64 word" where "BENCH_CMD_VALUE_END \<equiv> 2"

record event_info =
  ev_value :: "64 word"
  ev_name :: string
  ev_terminate :: bool

definition EVENT :: "64 word \<Rightarrow> 64 word \<Rightarrow> 64 word" where
  "EVENT cmd payload = push_bit CMD_OFFSET cmd OR payload"

definition validation_events :: "event_info list" where
  "validation_events =
     [\<lparr>ev_value = EVENT VALIDATION_CMD_LINUX LINUX_CMD_VALUE_BOOT_DONE,
        ev_name = ''linux-boot'', ev_terminate = True\<rparr>,
      \<lparr>ev_value = EVENT VALIDATION_CMD_LINUX LINUX_CMD_VALUE_TERMINATE,
        ev_name = ''linux-terminate'', ev_terminate = True\<rparr>,
      \<lparr>ev_value = EVENT VALIDATION_CMD_BENCH BENCH_CMD_VALUE_START,
        ev_name = ''benchmark-start'', ev_terminate = True\<rparr>,
      \<lparr>ev_value = EVENT VALIDATION_CMD_BENCH BENCH_CMD_VALUE_END,
        ev_name = ''benchmark-end'', ev_terminate = True\<rparr>]"

text \<open>The loop over \<open>validation_events\<close> of \<open>handle_write_validation1\<close>: the first
  event that matches sets \<open>terminate_simulation\<close> and ends the loop.\<close>

fun validation_events_loop :: "event_info list \<Rightarrow> RISCVCPUState \<Rightarrow> target_ulong \<Rightarrow> RISCVCPUState" where
  "validation_events_loop [] s val = s"
| "validation_events_loop (e # es) s val =
     (if val = ev_value e \<and> ev_terminate e \<and> terminating_event s \<noteq> None
         \<and> Some (ev_name e) = terminating_event s
      then s\<lparr>terminate_simulation := True\<rparr>
      else validation_events_loop es s val)"

definition handle_write_validation1 :: "RISCVCPUState \<Rightarrow> target_ulong \<Rightarrow> RISCVCPUState" where
  "handle_write_validation1 s val =
     (if val < 256 then s\<lparr>stdout_bytes := stdout_bytes s @ [ucast val]\<rparr>
      else validation_events_loop validation_events s val)"

section \<open>Writing a CSR\<close>

text \<open>
  The statement shared by the case labels \<open>0x323 .. 0x33f\<close> of \<open>csr_write\<close>.  The
  case \<open>0x7a3\<close> has no \<open>break\<close> and runs into it.
\<close>

definition write_mhpmevent :: "RISCVCPUState \<Rightarrow> 32 word \<Rightarrow> target_ulong \<Rightarrow> RISCVCPUState" where
  "write_mhpmevent s csr val = s\<lparr>mhpmevent := (mhpmevent s)[unat (csr AND 0x1F) := val]\<rparr>"

text \<open>
  \<open>csr_write\<close> returns the C return code (-1 invalid, 0 done, 1 leave the interpreter
  loop, 2 TLBs flushed) and the state.  C's \<open>&\<close> binds tighter than \<open>|\<close>, and
  \<open>!=\<close> binds tighter than \<open>&\<close>: \<open>a & ~m | v & m\<close> is \<open>(a & ~m) | (v & m)\<close>,
  \<open>~63 + 1\<close> is \<open>(~63) + 1\<close>, and \<open>s->dcsr & 0x600 != 0\<close> is
  \<open>s->dcsr & (0x600 != 0)\<close>, where the comparison is the \<open>int\<close> 1.  A 32-bit field
  assigned a 64-bit value keeps its low 32 bits.  \<open>tdata1\<close>, \<open>tdata2\<close> and \<open>tdata3\<close>
  have \<open>MAX_TRIGGERS\<close> = 1 entry; \<open>tselect\<close> is only ever assigned \<open>val % 1\<close>, so
  the index is 0.
\<close>

definition csr_write :: "RISCVCPUState \<Rightarrow> 32 word \<Rightarrow> target_ulong \<Rightarrow> int \<times> RISCVCPUState" where
  "csr_write s csr val =
     (if csr = 0x001 then (0, s\<lparr>fflags := ucast (val AND 0x1f), fs := 3\<rparr>)
      else if csr = 0x002 then (0, (set_frm s (ucast (val AND 7)))\<lparr>fs := 3\<rparr>)
      else if csr = 0x003 then
        (0, (set_frm s (ucast (drop_bit 5 val AND 7)))\<lparr>fflags := ucast (val AND 0x1f), fs := 3\<rparr>)
      else if csr = 0x100 then
        (0, set_mstatus s ((mstatus s AND NOT SSTATUS_MASK) OR (val AND SSTATUS_MASK)))
      else if csr = 0x104 then
        (let msk = ucast (mideleg s) :: target_ulong
         in (0, s\<lparr>mie := ucast ((ucast (mie s) AND NOT msk) OR (val AND msk))\<rparr>))
      else if csr = 0x105 then
        (let val1 = (if val AND 1 \<noteq> 0 then val AND (NOT 63 + 1) else val)
         in (0, s\<lparr>stvec := val1 AND NOT 2\<rparr>))
      else if csr = 0x106 then (0, s\<lparr>scounteren := ucast (val AND COUNTEREN_MASK)\<rparr>)
      else if csr = 0x140 then (0, s\<lparr>sscratch := val\<rparr>)
      else if csr = 0x141 then
        (0, s\<lparr>sepc := val AND (if misa s AND MCPUID_C \<noteq> 0 then NOT 1 else NOT 3)\<rparr>)
      else if csr = 0x142 then
        (0, s\<lparr>scause := val AND (ucast CAUSE_MASK OR push_bit (unat (cur_xlen s) - 1) 1)\<rparr>)
      else if csr = 0x143 then (0, s\<lparr>stval := val\<rparr>)
      else if csr = 0x144 then
        (let msk = ucast (mideleg s) :: target_ulong
         in (0, s\<lparr>mip := ucast ((ucast (mip s) AND NOT msk) OR (val AND msk))\<rparr>))
      else if csr = 0x180 then
        (if priv s = PRV_S \<and> mstatus s AND MSTATUS_TVM \<noteq> 0 then (- 1, s)
         else
           (let mode = drop_bit 60 val AND 15;
                s1 = (if mode = 0 \<or> mode = 8 \<or> mode = 9
                      then s\<lparr>satp := val AND SATP_MASK\<rparr> else s)
            in (2, tlb_flush_all s1)))
      else if csr = 0x300 then (0, set_mstatus s val)
      else if csr = 0x301 then
        (let new_mxl = uint (drop_bit (unat (cur_xlen s) - 2) val AND 3)
         in if 1 \<le> new_mxl \<and> new_mxl \<le> get_base_from_xlen 64 \<and> uint (mxl s) \<noteq> new_mxl
            then (1, s\<lparr>mxl := word_of_int new_mxl,
                        cur_xlen := word_of_int (push_bit (nat (new_mxl + 4)) 1)\<rparr>)
            else (0, s))
      else if csr = 0x302 then
        (let msk = 0xB109 :: target_ulong
         in (0, s\<lparr>medeleg := ucast ((ucast (medeleg s) AND NOT msk) OR (val AND msk))\<rparr>))
      else if csr = 0x303 then
        (let msk = MIP_SSIP OR MIP_STIP OR MIP_SEIP
         in (0, s\<lparr>mideleg := ucast ((ucast (mideleg s) AND NOT msk) OR (val AND msk))\<rparr>))
      else if csr = 0x304 then
        (let msk = MIE_MEIE OR MIE_SEIE OR MIE_MTIE OR MIE_STIE OR MIE_MSIE OR MIE_SSIE
         in (0, s\<lparr>mie := ucast ((ucast (mie s) AND NOT msk) OR (val AND msk))\<rparr>))
      else if csr = 0x305 then
        (let val1 = (if val AND 1 \<noteq> 0 then val AND (NOT 63 + 1) else val)
         in (0, s\<lparr>mtvec := val1 AND NOT 2\<rparr>))
      else if csr = 0x306 then (0, s\<lparr>mcounteren := ucast (val AND COUNTEREN_MASK)\<rparr>)
      else if csr = 0x340 then (0, s\<lparr>mscratch := val\<rparr>)
      else if csr = 0x341 then
        (0, s\<lparr>mepc := val AND (if misa s AND MCPUID_C \<noteq> 0 then NOT 1 else NOT 3)\<rparr>)
      else if csr = 0x342 then
        (0, s\<lparr>mcause := val AND (ucast CAUSE_MASK OR push_bit (unat (cur_xlen s) - 1) 1)\<rparr>)
      else if csr = 0x343 then (0, s\<lparr>mtval := val\<rparr>)
      else if csr = 0x344 then
        (let msk = MIP_SEIP OR MIP_STIP OR MIP_SSIP
         in (0, s\<lparr>mip := ucast ((ucast (mip s) AND NOT msk) OR (val AND msk))\<rparr>))
      else if csr = 0x7a0 then (0, s\<lparr>tselect := ucast (val mod of_nat MAX_TRIGGERS)\<rparr>)
      else if csr = 0x7a1 then
        (let type = sint (ucast (drop_bit (unat (cur_xlen s) - 4) val) :: 32 word)
         in if type \<noteq> 0 \<and> type \<noteq> 2 then (0, s)
            else
              (let msk = push_bit (unat (cur_xlen s) - 4) 15 OR MCONTROL_M OR MCONTROL_EXECUTE;
                   i = unat (tselect s)
               in (0, s\<lparr>tdata1 := (tdata1 s)[i := (tdata1 s ! i AND NOT msk) OR (val AND msk)]\<rparr>)))
      else if csr = 0x7a2 then (0, s\<lparr>tdata2 := (tdata2 s)[unat (tselect s) := val]\<rparr>)
      else if csr = 0x7a3 then
        (0, write_mhpmevent (s\<lparr>tdata3 := (tdata3 s)[unat (tselect s) := val]\<rparr>) csr val)
      else if 0x323 \<le> csr \<and> csr \<le> 0x33f then (0, write_mhpmevent s csr val)
      else if csr = 0x7b0 then
        (let msk = 0x603 :: target_ulong;
             s1 = s\<lparr>dcsr := (dcsr s AND NOT msk) OR (val AND msk)\<rparr>
         in (0, s1\<lparr>stop_the_counter :=
                      (dcsr s1 AND (if (0x600 :: int) \<noteq> 0 then 1 else 0) \<noteq> 0)\<rparr>))
      else if csr = 0x7b1 then
        (0, s\<lparr>dpc := val AND (if misa s AND MCPUID_C \<noteq> 0 then NOT 1 else NOT 3)\<rparr>)
      else if csr = 0x7b2 then (0, s\<lparr>dscratch := val\<rparr>)
      else if csr = 0x81F then (0, s)
      else if csr = 0x8D0 then
        (if drop_bit 12 val = 0xDEAD0 then (0, s)
         else if drop_bit 12 val = 0x1FEED then (0, s\<lparr>terminate_simulation := True\<rparr>)
         else if drop_bit 12 val = 0x50BAD then (0, s\<lparr>terminate_simulation := True\<rparr>)
         else (0, s))
      else if csr = 0x8D1 then (0, handle_write_validation1 s val)
      else if csr = 0xb00 then (0, s\<lparr>mcycle := val\<rparr>)
      else if csr = 0xb02 then (0, s\<lparr>minstret := val\<rparr>)
      else if 0xb03 \<le> csr \<and> csr \<le> 0xb1f then (0, s)
      else if csr = 0xb80 then
        (if cur_xlen s \<noteq> 32 then (- 1, s)
         else (0, s\<lparr>mcycle := ucast (ucast (mcycle s) :: 32 word) OR push_bit 32 val\<rparr>))
      else if csr = 0xb82 then
        (if cur_xlen s \<noteq> 32 then (- 1, s)
         else (0, s\<lparr>minstret := ucast (ucast (minstret s) :: 32 word) OR push_bit 32 val\<rparr>))
      else (- 1, s))"

section \<open>Traps and interrupts\<close>

text \<open>\<open>set_priv\<close>: on a change of privilege the TLBs are flushed and \<open>cur_xlen\<close> is
  recomputed from \<open>SXL\<close>, \<open>UXL\<close> or \<open>mxl\<close>.\<close>

definition set_priv :: "RISCVCPUState \<Rightarrow> 8 word \<Rightarrow> RISCVCPUState" where
  "set_priv s new_priv =
     (if priv s \<noteq> new_priv then
        (let s1 = tlb_flush_all s;
             new_mxl = (if new_priv = PRV_S then unat (drop_bit MSTATUS_SXL_SHIFT (mstatus s1) AND 3)
                        else if new_priv = PRV_U then unat (drop_bit MSTATUS_UXL_SHIFT (mstatus s1) AND 3)
                        else unat (mxl s1))
         in s1\<lparr>cur_xlen := push_bit (4 + new_mxl) 1, priv := new_priv\<rparr>)
      else s)"

text \<open>
  \<open>raise_exception2\<close>.  \<open>deleg\<close> is read from \<open>mideleg\<close> for an interrupt and from
  \<open>medeleg\<close> otherwise, when the privilege is at most S.  The cause written to
  \<open>scause\<close> or \<open>mcause\<close> is \<open>cause & CAUSE_MASK\<close>, with the top bit of the current
  XLEN set for an interrupt.
\<close>

definition raise_exception2 :: "RISCVCPUState \<Rightarrow> 32 word \<Rightarrow> target_ulong \<Rightarrow> RISCVCPUState" where
  "raise_exception2 s cause tval =
     (let deleg =
            (if priv s \<le> PRV_S then
               (if cause AND CAUSE_INTERRUPT \<noteq> 0
                then drop_bit (unat (cause AND 63)) (mideleg s) AND 1 \<noteq> 0
                else drop_bit (unat cause) (medeleg s) AND 1 \<noteq> 0)
             else False);
          causel0 = ucast (cause AND CAUSE_MASK) :: target_ulong;
          causel = (if cause AND CAUSE_INTERRUPT \<noteq> 0
                    then causel0 OR push_bit (unat (cur_xlen s) - 1) 1 else causel0)
      in if deleg then
           (let s1 = s\<lparr>scause := causel, sepc := pc s, stval := tval\<rparr>;
                s2 = s1\<lparr>mstatus := (mstatus s1 AND NOT MSTATUS_SPIE) OR
                       push_bit MSTATUS_SPIE_SHIFT (if mstatus s1 AND MSTATUS_SIE \<noteq> 0 then 1 else 0)\<rparr>;
                s3 = s2\<lparr>mstatus := (mstatus s2 AND NOT MSTATUS_SPP) OR
                       push_bit MSTATUS_SPP_SHIFT (ucast (priv s2))\<rparr>;
                s4 = s3\<lparr>mstatus := mstatus s3 AND NOT MSTATUS_SIE\<rparr>;
                s5 = set_priv s4 PRV_S
            in if stvec s5 AND 1 \<noteq> 0 \<and> cause AND CAUSE_INTERRUPT \<noteq> 0
               then s5\<lparr>pc := stvec s5 - 1 + 4 * scause s5\<rparr>
               else s5\<lparr>pc := stvec s5\<rparr>)
         else
           (let s1 = s\<lparr>mcause := causel, mepc := pc s, mtval := tval\<rparr>;
                s2 = s1\<lparr>mstatus := (mstatus s1 AND NOT MSTATUS_MPIE) OR
                       push_bit MSTATUS_MPIE_SHIFT (if mstatus s1 AND MSTATUS_MIE \<noteq> 0 then 1 else 0)\<rparr>;
                s3 = s2\<lparr>mstatus := (mstatus s2 AND NOT MSTATUS_MPP) OR
                       push_bit MSTATUS_MPP_SHIFT (ucast (priv s2))\<rparr>;
                s4 = s3\<lparr>mstatus := mstatus s3 AND NOT MSTATUS_MIE\<rparr>;
                s5 = set_priv s4 PRV_M
            in if mtvec s5 AND 1 \<noteq> 0 \<and> cause AND CAUSE_INTERRUPT \<noteq> 0
               then s5\<lparr>pc := mtvec s5 - 1 + 4 * mcause s5\<rparr>
               else s5\<lparr>pc := mtvec s5\<rparr>))"

definition raise_exception :: "RISCVCPUState \<Rightarrow> 32 word \<Rightarrow> RISCVCPUState" where
  "raise_exception s cause = raise_exception2 s cause 0"

definition handle_dret :: "RISCVCPUState \<Rightarrow> RISCVCPUState" where
  "handle_dret s =
     (let s1 = set_priv (s\<lparr>stop_the_counter := False\<rparr>) (ucast (dcsr s AND 3))
      in s1\<lparr>pc := dpc s1\<rparr>)"

text \<open>\<open>get_pending_irq_mask\<close>: \<open>mip & mie\<close>, gated by the privilege.  The
  \<open>default\<close> label shares the body of \<open>PRV_U\<close>.\<close>

definition get_pending_irq_mask :: "RISCVCPUState \<Rightarrow> 32 word" where
  "get_pending_irq_mask s =
     (let pending_ints = mip s AND mie s
      in if pending_ints = 0 then 0
         else
           (let enabled_ints =
                  (if priv s = PRV_M then
                     (if mstatus s AND MSTATUS_MIE \<noteq> 0 then NOT (mideleg s) else 0)
                   else if priv s = PRV_S then
                     (if mstatus s AND MSTATUS_SIE \<noteq> 0 then NOT (mideleg s) OR mideleg s
                      else NOT (mideleg s))
                   else - 1)
            in pending_ints AND enabled_ints))"

text \<open>
  Modelled from the spec: \<open>ctz32\<close> is declared in cutils.h, which is not among the sources.
  The spec has \<open>raise_interrupt\<close> "raise the lowest-numbered pending bit" and the PLIC
  claim "the lowest pending" line, both through \<open>ctz32\<close>: the index of the lowest set bit
  of a 32-bit value (32 when there is none).
\<close>

definition ctz32 :: "32 word \<Rightarrow> nat" where
  "ctz32 a = (case List.find (bit a) [0..<32] of None \<Rightarrow> 32 | Some i \<Rightarrow> i)"

definition raise_interrupt :: "RISCVCPUState \<Rightarrow> int \<times> RISCVCPUState" where
  "raise_interrupt s =
     (let msk = get_pending_irq_mask s
      in if msk = 0 then (0, s)
         else
           (let irq_num = ctz32 msk
            in (- 1, raise_exception s (of_nat irq_num OR CAUSE_INTERRUPT))))"

text \<open>
  Following the spec's words, to be compared with \<open>get_pending_irq_mask\<close>: interrupt
  number \<open>k\<close> can be taken when it is pending and enabled (bit \<open>k\<close> of \<open>mip\<close> and of
  \<open>mie\<close>) and the privilege lets it through: "at M, MIE must be 1 for non-delegated; at
  S, SIE must be 1 for delegated; at U, unmasked", where \<open>mideleg\<close> says which numbers are
  delegated.  \<open>MIE\<close> is bit 3 and \<open>SIE\<close> is bit 1 of \<open>mstatus\<close>.
\<close>

definition irq_deliverable_spec :: "RISCVCPUState \<Rightarrow> nat \<Rightarrow> bool" where
  "irq_deliverable_spec s k =
     (bit (mip s) k \<and> bit (mie s) k \<and>
      (if priv s = PRV_M then bit (mstatus s) 3 \<and> \<not> bit (mideleg s) k
       else if priv s = PRV_S then bit (mstatus s) 1 \<or> \<not> bit (mideleg s) k
       else True))"

definition riscv_cpu_set_mip :: "RISCVCPUState \<Rightarrow> 32 word \<Rightarrow> RISCVCPUState" where
  "riscv_cpu_set_mip s msk =
     (let s1 = s\<lparr>mip := mip s OR msk\<rparr>
      in if power_down_flag s1 \<and> mip s1 AND mie s1 \<noteq> 0
         then s1\<lparr>power_down_flag := False\<rparr> else s1)"

definition riscv_cpu_reset_mip :: "RISCVCPUState \<Rightarrow> 32 word \<Rightarrow> RISCVCPUState" where
  "riscv_cpu_reset_mip s msk = s\<lparr>mip := mip s AND NOT msk\<rparr>"

section \<open>Initial state\<close>

text \<open>
  Modelled from the spec: \<open>ROM_SIZE\<close>, \<open>ROM_BASE_ADDR\<close> and \<open>BOOT_BASE_ADDR\<close> are
  declared in riscv\_cpu.h, which is not among the sources.  The spec puts the code of the
  synthesized ROM in its lower half and the data pool in its upper half; the layout comment
  of \<open>create_boot_rom\<close> gives the numbers: the ROM has \<open>0x1000\<close> bytes, the boot code
  starts \<open>0x40\<close> bytes into it and the data at \<open>0x800\<close>.
\<close>

abbreviation (input) ROM_SIZE :: nat where "ROM_SIZE \<equiv> 0x1000"
abbreviation (input) ROM_BASE_ADDR :: "64 word" where "ROM_BASE_ADDR \<equiv> 0x10000"
abbreviation (input) BOOT_BASE_ADDR :: "64 word" where "BOOT_BASE_ADDR \<equiv> 0x10040"

text \<open>\<open>riscv_cpu_init\<close>: \<open>mallocz\<close> zeroes the struct, then the fields below are set.\<close>

definition zero_state :: RISCVCPUState where
  "zero_state =
     \<lparr>pc = 0, reg = replicate 32 0, reg_prior = replicate 32 0, reg_ts = replicate 32 0,
      most_recently_written_reg = 0, fp_reg = replicate 32 0, fp_reg_ts = replicate 32 0,
      most_recently_written_fp_reg = 0, fflags = 0, frm = 0, cur_xlen = 0, priv = 0,
      fs = 0, mxl = 0, insn_counter = 0, minstret = 0, mcycle = 0,
      stop_the_counter = False, power_down_flag = False, terminate_simulation = False,
      pending_exception = 0, pending_tval = 0, mstatus = 0, mtvec = 0, mscratch = 0,
      mepc = 0, mcause = 0, mtval = 0, mvendorid = 0, marchid = 0, mimpid = 0, mhartid = 0,
      misa = 0, mie = 0, mip = 0, medeleg = 0, mideleg = 0, mcounteren = 0, tselect = 0,
      tdata1 = replicate MAX_TRIGGERS 0, tdata2 = replicate MAX_TRIGGERS 0,
      tdata3 = replicate MAX_TRIGGERS 0, mhpmevent = replicate 32 0,
      stvec = 0, sscratch = 0, sepc = 0, scause = 0, stval = 0, satp = 0, scounteren = 0,
      dcsr = 0, dpc = 0, dscratch = 0, load_res = 0, store_repair_addr = 0,
      tlb_read = replicate TLB_SIZE \<lparr>vaddr = 0, mem_addend = 0\<rparr>,
      tlb_write = replicate TLB_SIZE \<lparr>vaddr = 0, mem_addend = 0\<rparr>,
      tlb_code = replicate TLB_SIZE \<lparr>vaddr = 0, mem_addend = 0\<rparr>,
      terminating_event = None, stdout_bytes = []\<rparr>"

definition riscv_cpu_init :: "string option \<Rightarrow> RISCVCPUState" where
  "riscv_cpu_init validation_terminate_event =
     (let s1 = zero_state\<lparr>pc := BOOT_BASE_ADDR, priv := PRV_M, cur_xlen := 64,
                 mxl := word_of_int (get_base_from_xlen 64)\<rparr>;
          s2 = s1\<lparr>mstatus := push_bit MSTATUS_UXL_SHIFT (ucast (mxl s1)) OR
                       push_bit MSTATUS_SXL_SHIFT (ucast (mxl s1)) OR
                       push_bit MSTATUS_MPP_SHIFT 3\<rparr>;
          s3 = s2\<lparr>misa := misa s2 OR MCPUID_SUPER OR MCPUID_USER OR MCPUID_I OR MCPUID_M
                       OR MCPUID_A,
                   most_recently_written_reg := - 1\<rparr>;
          s4 = s3\<lparr>most_recently_written_fp_reg := - 1, misa := misa s3 OR MCPUID_F\<rparr>;
          s5 = s4\<lparr>misa := misa s4 OR MCPUID_D\<rparr>;
          s6 = s5\<lparr>misa := misa s5 OR MCPUID_C\<rparr>;
          s7 = s6\<lparr>mvendorid := 11 * 128 + 101, marchid := push_bit 63 1 OR 2, mimpid := 1,
                   mhartid := 0, store_repair_addr := NOT 0, tselect := 0,
                   tdata1 := replicate MAX_TRIGGERS (NOT 0),
                   tdata2 := replicate MAX_TRIGGERS (NOT 0)\<rparr>
      in (tlb_init s7)\<lparr>terminating_event := validation_terminate_event\<rparr>)"

section \<open>Physical memory\<close>

text \<open>
  Modelled from the spec: \<open>PhysMemoryRange\<close>, \<open>PhysMemoryMap\<close> and
  \<open>get_phys_mem_range\<close> belong to iomem.h and iomem.c, which are not among the sources.
  The spec has each range carry a base, a size and an is-RAM flag, a RAM range a byte
  buffer, and ranges "resolved by linear scan".  The fields \<open>addr\<close>, \<open>size\<close>,
  \<open>is_ram\<close> and \<open>phys_mem\<close> are prefixed with \<open>pr_\<close>.  The buffer is a map from the
  byte offset to the byte; the device callbacks of an I/O range are left out, the page
  walk never calls them.  \<open>get_phys_mem_range\<close> returns the index of the first range that
  holds the address, \<open>None\<close> for C's \<open>NULL\<close>.
\<close>

record PhysMemoryRange =
  pr_addr :: "64 word"
  pr_size :: "64 word"
  pr_is_ram :: bool
  pr_phys_mem :: "nat \<Rightarrow> 8 word"

fun get_phys_mem_range_from :: "nat \<Rightarrow> PhysMemoryRange list \<Rightarrow> 64 word \<Rightarrow> nat option" where
  "get_phys_mem_range_from i [] paddr = None"
| "get_phys_mem_range_from i (pr # prs) paddr =
     (if pr_addr pr \<le> paddr \<and> paddr < pr_addr pr + pr_size pr then Some i
      else get_phys_mem_range_from (Suc i) prs paddr)"

definition get_phys_mem_range :: "PhysMemoryRange list \<Rightarrow> 64 word \<Rightarrow> nat option" where
  "get_phys_mem_range mem_map paddr = get_phys_mem_range_from 0 mem_map paddr"

text \<open>
  The memory the CPU works on: the ranges of the map and the three globals that
  \<open>TRACK_MEM\<close> assigns on every access.
\<close>

record phys_state =
  mem_map :: "PhysMemoryRange list"
  checker_last_addr :: "64 word"
  checker_last_data :: "64 word"
  checker_last_size :: int

definition TRACK_MEM :: "phys_state \<Rightarrow> 64 word \<Rightarrow> int \<Rightarrow> 64 word \<Rightarrow> phys_state" where
  "TRACK_MEM m a sz val = m\<lparr>checker_last_addr := a, checker_last_size := sz, checker_last_data := val\<rparr>"

text \<open>
  The 8-byte access \<open>*(uint64_t *)(pr->phys_mem + off)\<close> on a little-endian host: byte
  \<open>off\<close> is the least significant.
\<close>

definition load_u64 :: "(nat \<Rightarrow> 8 word) \<Rightarrow> nat \<Rightarrow> 64 word" where
  "load_u64 buf off =
     ucast (buf off) OR push_bit 8 (ucast (buf (off + 1))) OR
     push_bit 16 (ucast (buf (off + 2))) OR push_bit 24 (ucast (buf (off + 3))) OR
     push_bit 32 (ucast (buf (off + 4))) OR push_bit 40 (ucast (buf (off + 5))) OR
     push_bit 48 (ucast (buf (off + 6))) OR push_bit 56 (ucast (buf (off + 7)))"

definition store_u64 :: "(nat \<Rightarrow> 8 word) \<Rightarrow> nat \<Rightarrow> 64 word \<Rightarrow> (nat \<Rightarrow> 8 word)" where
  "store_u64 buf off val =
     buf(off := ucast val, off + 1 := ucast (drop_bit 8 val),
         off + 2 := ucast (drop_bit 16 val), off + 3 := ucast (drop_bit 24 val),
         off + 4 := ucast (drop_bit 32 val), off + 5 := ucast (drop_bit 40 val),
         off + 6 := ucast (drop_bit 48 val), off + 7 := ucast (drop_bit 56 val))"

text \<open>\<open>PHYS_MEM_READ_WRITE(64, uint64_t)\<close>: only RAM is read or written; anything
  else reads as 0 and drops the write.\<close>

definition phys_read_u64 :: "phys_state \<Rightarrow> target_ulong \<Rightarrow> 64 word \<times> phys_state" where
  "phys_read_u64 m a =
     (case get_phys_mem_range (mem_map m) a of
        None \<Rightarrow> (0, m)
      | Some i \<Rightarrow>
          (let pr = mem_map m ! i
           in if pr_is_ram pr then
                (let pval = load_u64 (pr_phys_mem pr) (unat (a - pr_addr pr))
                 in (pval, TRACK_MEM m a 64 pval))
              else (0, m)))"

definition phys_write_u64 :: "phys_state \<Rightarrow> target_ulong \<Rightarrow> 64 word \<Rightarrow> phys_state" where
  "phys_write_u64 m a val =
     (case get_phys_mem_range (mem_map m) a of
        None \<Rightarrow> m
      | Some i \<Rightarrow>
          (let pr = mem_map m ! i
           in if pr_is_ram pr then
                (let m1 = TRACK_MEM m a 64 val
                 in m1\<lparr>mem_map := (mem_map m1)
                      [i := pr\<lparr>pr_phys_mem := store_u64 (pr_phys_mem pr) (unat (a - pr_addr pr)) val\<rparr>]\<rparr>)
              else m))"

section \<open>The page-table walker\<close>

abbreviation (input) PTE_V_MASK :: "64 word" where "PTE_V_MASK \<equiv> 0x1"
abbreviation (input) PTE_U_MASK :: "64 word" where "PTE_U_MASK \<equiv> 0x10"
abbreviation (input) PTE_A_MASK :: "64 word" where "PTE_A_MASK \<equiv> 0x40"
abbreviation (input) PTE_D_MASK :: "64 word" where "PTE_D_MASK \<equiv> 0x80"

abbreviation (input) ACCESS_READ :: nat where "ACCESS_READ \<equiv> 0"
abbreviation (input) ACCESS_WRITE :: nat where "ACCESS_WRITE \<equiv> 1"
abbreviation (input) ACCESS_CODE :: nat where "ACCESS_CODE \<equiv> 2"

definition CONFIG_SW_MANAGED_A_AND_D :: bool where
  "CONFIG_SW_MANAGED_A_AND_D = True"

text \<open>
  The body of the walker's loop from the test \<open>xwr != 0\<close> on, for the PTE \<open>pte\<close> read at
  \<open>pte_addr\<close> on level \<open>i\<close>: the checks of a leaf in the order of the source, then the
  physical address.  The result is \<open>Inl\<close> of the C return code on failure and \<open>Inr\<close> of
  \<open>*ppaddr\<close> on success.  \<open>ppn\<close> is an \<open>unsigned\<close>, 32 bits.  The \<open>else\<close> branch of
  \<open>CONFIG_SW_MANAGED_A_AND_D\<close> is the one that would write the PTE back.
\<close>

definition leaf_pte ::
  "RISCVCPUState \<Rightarrow> phys_state \<Rightarrow> 8 word \<Rightarrow> nat \<Rightarrow> target_ulong \<Rightarrow> int \<Rightarrow> int \<Rightarrow> target_ulong
     \<Rightarrow> target_ulong \<Rightarrow> (int + target_ulong) \<times> phys_state" where
  "leaf_pte s m priv1 access vaddr1 levels i pte_addr pte =
     (let vaddr_shift = nat (int PG_SHIFT + 9 * (levels - 1 - i));
          paddr = push_bit PG_SHIFT (drop_bit 10 pte);
          xwr = drop_bit 1 pte AND 7
      in if xwr = 2 \<or> xwr = 6 then (Inl (- 1), m)
         else if priv1 = PRV_S \<and> pte AND PTE_U_MASK \<noteq> 0 \<and> mstatus s AND MSTATUS_SUM = 0
           then (Inl (- 1), m)
         else if priv1 \<noteq> PRV_S \<and> pte AND PTE_U_MASK = 0 then (Inl (- 1), m)
         else
           (let xwr1 = (if mstatus s AND MSTATUS_MXR \<noteq> 0 then xwr OR drop_bit 2 xwr else xwr);
                ppn = ucast (drop_bit 10 pte) :: 32 word;
                j = nat (levels - 1 - i)
            in if drop_bit access xwr1 AND 1 = 0 then (Inl (- 1), m)
               else if (push_bit j 1 - 1) AND ppn \<noteq> 0 then (Inl (- 1), m)
               else
                 (let vaddr_mask = push_bit vaddr_shift 1 - 1;
                      ok = Inr ((paddr AND NOT vaddr_mask) OR (vaddr1 AND vaddr_mask))
                  in if CONFIG_SW_MANAGED_A_AND_D then
                       (if pte AND PTE_A_MASK = 0 then (Inl (- 1), m)
                        else if access = ACCESS_WRITE \<and> pte AND PTE_D_MASK = 0 then (Inl (- 1), m)
                        else (ok, m))
                     else
                       (let need_write =
                              (if pte AND PTE_A_MASK = 0 then True
                               else pte AND PTE_D_MASK = 0 \<and> access = ACCESS_WRITE);
                            pte1 = pte OR PTE_A_MASK;
                            pte2 = (if access = ACCESS_WRITE then pte1 OR PTE_D_MASK else pte1)
                        in (ok, if need_write then phys_write_u64 m pte_addr pte2 else m)))))"

text \<open>
  The loop \<open>for (i = 0; i < levels; i++)\<close>: one PTE of 8 bytes (\<open>pte_size_log2 = 3\<close>) is
  read per level, 9 index bits (\<open>pte_bits\<close>) of the address select it, a PTE with
  \<open>xwr = 0\<close> points to the next table.
\<close>

function walk ::
  "RISCVCPUState \<Rightarrow> phys_state \<Rightarrow> 8 word \<Rightarrow> nat \<Rightarrow> target_ulong \<Rightarrow> int \<Rightarrow> int \<Rightarrow> target_ulong
     \<Rightarrow> (int + target_ulong) \<times> phys_state" where
  "walk s m priv1 access vaddr1 levels i pte_addr =
     (if i < levels then
        (let vaddr_shift = nat (int PG_SHIFT + 9 * (levels - 1 - i));
             pte_idx = drop_bit vaddr_shift vaddr1 AND 511;
             pte_addr1 = pte_addr + push_bit 3 pte_idx;
             (pte, m1) = phys_read_u64 m pte_addr1
         in if pte AND PTE_V_MASK = 0 then (Inl (- 1), m1)
            else if drop_bit 1 pte AND 7 \<noteq> 0
              then leaf_pte s m1 priv1 access vaddr1 levels i pte_addr1 pte
            else walk s m1 priv1 access vaddr1 levels (i + 1) (push_bit PG_SHIFT (drop_bit 10 pte)))
      else (Inl (- 1), m))"
  by pat_completeness auto
termination
  by (relation "measure (\<lambda>(s, m, priv1, access, vaddr1, levels, i, pte_addr). nat (levels - i))") auto

text \<open>
  \<open>get_phys_addr\<close>: \<open>Inr paddr\<close> for return code 0, \<open>Inl (-1)\<close> for a translation error,
  \<open>Inl (-2)\<close> for an illegal physical address.  \<open>satp\<close> can only hold the modes 0, 8
  and 9 (\<open>csr_write\<close> accepts no other); for them \<open>levels\<close> is 3 or 4 and every shift amount
  is in range.  The sign-extension test shifts the address left and arithmetically right by
  \<open>64 - (12 + 9 * levels)\<close>.
\<close>

definition get_phys_addr ::
  "RISCVCPUState \<Rightarrow> phys_state \<Rightarrow> target_ulong \<Rightarrow> nat \<Rightarrow> (int + target_ulong) \<times> phys_state" where
  "get_phys_addr s m vaddr1 access =
     (let priv1 = (if mstatus s AND MSTATUS_MPRV \<noteq> 0 \<and> access \<noteq> ACCESS_CODE
                   then ucast (drop_bit MSTATUS_MPP_SHIFT (mstatus s) AND 3)
                   else priv s)
      in if priv1 = PRV_M then
           (if cur_xlen s > 32 \<and> drop_bit 56 vaddr1 \<noteq> 0 then (Inl (- 2), m)
            else if cur_xlen s < 64
              then (Inr (vaddr1 AND (push_bit (unat (cur_xlen s)) 1 - 1)), m)
            else (Inr vaddr1, m))
         else
           (let mode = uint (drop_bit 60 (satp s) AND 0xf)
            in if mode = 0 then (Inr vaddr1, m)
               else
                 (let levels = mode - 8 + 3;
                      vaddr_shift = nat (64 - (int PG_SHIFT + levels * 9))
                  in if signed_drop_bit vaddr_shift (push_bit vaddr_shift vaddr1) \<noteq> vaddr1
                     then (Inl (- 1), m)
                     else
                       (let pte_addr = push_bit PG_SHIFT (satp s AND (push_bit 44 1 - 1))
                        in walk s m priv1 access vaddr1 levels 0 pte_addr))))"

text \<open>
  What the three callers store in \<open>pending_exception\<close> when \<open>get_phys_addr\<close> returns
  the error \<open>err\<close>: \<open>target_read_slow\<close>, \<open>target_write_slow\<close> and
  \<open>target_read_insn_slow\<close>.
\<close>

definition target_read_slow_exception :: "int \<Rightarrow> int" where
  "target_read_slow_exception err = (if err = - 1 then CAUSE_LOAD_PAGE_FAULT else CAUSE_FAULT_LOAD)"

definition target_write_slow_exception :: "int \<Rightarrow> int" where
  "target_write_slow_exception err = (if err = - 1 then CAUSE_STORE_PAGE_FAULT else CAUSE_FAULT_STORE)"

definition target_read_insn_slow_exception :: "int \<Rightarrow> int" where
  "target_read_insn_slow_exception err = (if err = - 1 then CAUSE_FETCH_PAGE_FAULT else CAUSE_FAULT_FETCH)"

text \<open>
  Notions for stating what a walk does.  \<open>pte_slot\<close> is the address the loop reads on
  level \<open>i\<close> of a table at \<open>tbl\<close>.  \<open>walk_table m0 vaddr levels root n\<close> follows the
  loop for \<open>n\<close> levels down from the table \<open>root\<close> in memory \<open>m0\<close>, through valid PTEs
  that have \<open>xwr = 0\<close>, and returns the table and the memory state it arrives at, or
  \<open>None\<close> when the loop does not go down \<open>n\<close> times.  \<open>walk_visits m0 vaddr levels root i
  tbl m\<close> says that the walk arrives on level \<open>i\<close> at the table \<open>tbl\<close> with the memory
  state \<open>m\<close>.  \<open>ram_backed\<close> says that an address lies in a registered RAM range.
\<close>

definition pte_slot :: "target_ulong \<Rightarrow> int \<Rightarrow> int \<Rightarrow> target_ulong \<Rightarrow> target_ulong" where
  "pte_slot vaddr1 levels i tbl =
     tbl + push_bit 3 (drop_bit (nat (int PG_SHIFT + 9 * (levels - 1 - i))) vaddr1 AND 511)"

fun walk_table ::
  "phys_state \<Rightarrow> target_ulong \<Rightarrow> int \<Rightarrow> target_ulong \<Rightarrow> nat \<Rightarrow> (target_ulong \<times> phys_state) option" where
  "walk_table m0 vaddr1 levels root 0 = Some (root, m0)"
| "walk_table m0 vaddr1 levels root (Suc n) =
     (case walk_table m0 vaddr1 levels root n of
        None \<Rightarrow> None
      | Some (tbl, m) \<Rightarrow>
          (if int n < levels then
             (let (pte, m1) = phys_read_u64 m (pte_slot vaddr1 levels (int n) tbl)
              in if pte AND PTE_V_MASK \<noteq> 0 \<and> drop_bit 1 pte AND 7 = 0
                 then Some (push_bit PG_SHIFT (drop_bit 10 pte), m1)
                 else None)
           else None))"

definition walk_visits ::
  "phys_state \<Rightarrow> target_ulong \<Rightarrow> int \<Rightarrow> target_ulong \<Rightarrow> int \<Rightarrow> target_ulong \<Rightarrow> phys_state \<Rightarrow> bool" where
  "walk_visits m0 vaddr1 levels root i tbl m =
     (0 \<le> i \<and> walk_table m0 vaddr1 levels root (nat i) = Some (tbl, m))"

definition ram_backed :: "phys_state \<Rightarrow> target_ulong \<Rightarrow> bool" where
  "ram_backed m a =
     (case get_phys_mem_range (mem_map m) a of
        None \<Rightarrow> False
      | Some k \<Rightarrow> pr_is_ram (mem_map m ! k))"

section \<open>The machine: HTIF\<close>

text \<open>
  \<open>struct RISCVMachine\<close> of the machine file, without its pointers.  \<open>console_out\<close>
  records the bytes handed to \<open>s->common.console->write_data\<close>.  A call that ends the
  process is the left summand: \<open>exit(0)\<close> of the power-off command (compiled in unless
  \<open>VERIFICATION\<close> is defined; no source defines it) and a failed \<open>assert\<close>.
\<close>

record RISCVMachine =
  ram_size :: "64 word"
  rtc_real_time :: bool
  rtc_start_time :: "64 word"
  timecmp :: "64 word"
  plic_pending_irq :: "32 word"
  plic_served_irq :: "32 word"
  htif_tohost :: "64 word"
  htif_fromhost :: "64 word"
  htif_tohost_addr :: "64 word"
  virtio_count :: int
  console_out :: "8 word list"

datatype halt = EXIT_0 | ASSERT_FAILED

definition VERIFICATION :: bool where
  "VERIFICATION = False"

abbreviation (input) CLINT_BASE_ADDR :: "64 word" where "CLINT_BASE_ADDR \<equiv> 0x02000000"
abbreviation (input) RTC_FREQ_DIV :: "64 word" where "RTC_FREQ_DIV \<equiv> 16"

definition htif_read :: "RISCVMachine \<Rightarrow> 32 word \<Rightarrow> int \<Rightarrow> halt + 32 word" where
  "htif_read s offset size_log2 =
     (if size_log2 \<noteq> 2 then Inl ASSERT_FAILED
      else if offset = 0 then Inr (ucast (htif_tohost s))
      else if offset = 4 then Inr (ucast (drop_bit 32 (htif_tohost s)))
      else if offset = 8 then Inr (ucast (htif_fromhost s))
      else if offset = 12 then Inr (ucast (drop_bit 32 (htif_fromhost s)))
      else Inr 0)"

text \<open>\<open>htif_handle_cmd\<close>: \<open>device\<close> is bits 63:56 of \<open>tohost\<close>, \<open>cmd\<close> bits 55:48.
  The \<open>printf\<close> of the last branch is not modelled.\<close>

definition htif_handle_cmd :: "RISCVMachine \<Rightarrow> halt + RISCVMachine" where
  "htif_handle_cmd s =
     (let device = ucast (drop_bit 56 (htif_tohost s)) :: 32 word;
          cmd = ucast (drop_bit 48 (htif_tohost s) AND 0xff) :: 32 word
      in if htif_tohost s = 1 then (if VERIFICATION then Inr s else Inl EXIT_0)
         else if device = 1 \<and> cmd = 1 then
           Inr (s\<lparr>console_out := console_out s @ [ucast (htif_tohost s AND 0xff)],
                  htif_tohost := 0,
                  htif_fromhost := push_bit 56 (ucast device) OR push_bit 48 (ucast cmd)\<rparr>)
         else if device = 1 \<and> cmd = 0 then Inr (s\<lparr>htif_tohost := 0\<rparr>)
         else Inr s)"

text \<open>
  \<open>htif_write\<close>.  In \<open>s->htif_tohost & ~0xffffffff\<close> the constant has type
  \<open>unsigned int\<close>, so its complement is the 32-bit 0 and is widened to 64 bits only
  afterwards; \<open>0xffffffff\<close> itself widens to the low 32 bits.
\<close>

definition htif_write :: "RISCVMachine \<Rightarrow> 32 word \<Rightarrow> 32 word \<Rightarrow> int \<Rightarrow> halt + RISCVMachine" where
  "htif_write s offset val size_log2 =
     (if size_log2 \<noteq> 2 then Inl ASSERT_FAILED
      else if offset = 0 then
        htif_handle_cmd
          (s\<lparr>htif_tohost := (htif_tohost s AND ucast (NOT (0xffffffff :: 32 word))) OR ucast val\<rparr>)
      else if offset = 4 then
        htif_handle_cmd
          (s\<lparr>htif_tohost := (htif_tohost s AND ucast (0xffffffff :: 32 word)) OR push_bit 32 (ucast val)\<rparr>)
      else if offset = 8 then
        Inr (s\<lparr>htif_fromhost := (htif_fromhost s AND ucast (NOT (0xffffffff :: 32 word))) OR ucast val\<rparr>)
      else if offset = 12 then
        Inr (s\<lparr>htif_fromhost := (htif_fromhost s AND ucast (0xffffffff :: 32 word)) OR push_bit 32 (ucast val)\<rparr>)
      else Inr s)"

section \<open>The snapshot boot ROM\<close>

text \<open>The instruction encoders.  Register numbers are the \<open>int\<close> arguments of the
  source, masked to 5 bits before use.\<close>

definition create_csrrw :: "32 word \<Rightarrow> 32 word \<Rightarrow> 32 word" where
  "create_csrrw rs csrn = 0x1073 OR push_bit 20 (csrn AND 0xFFF) OR push_bit 15 (rs AND 0x1F)"

definition create_csrrs :: "32 word \<Rightarrow> 32 word \<Rightarrow> 32 word" where
  "create_csrrs rd csrn = 0x2073 OR push_bit 20 (csrn AND 0xFFF) OR push_bit 7 (rd AND 0x1F)"

definition create_auipc :: "32 word \<Rightarrow> 32 word \<Rightarrow> 32 word" where
  "create_auipc rd addr =
     (let addr1 = (if addr AND 0x800 \<noteq> 0 then addr + 0x800 else addr)
      in 0x17 OR push_bit 7 (rd AND 0x1F) OR push_bit 12 (drop_bit 12 addr1))"

definition create_addi :: "32 word \<Rightarrow> 32 word \<Rightarrow> 32 word" where
  "create_addi rd addr =
     (let pos = addr AND 0xFFF
      in 0x13 OR push_bit 7 (rd AND 0x1F) OR push_bit 15 (rd AND 0x1F) OR push_bit 20 (pos AND 0xFFF))"

definition create_seti :: "32 word \<Rightarrow> 32 word \<Rightarrow> 32 word" where
  "create_seti rd data = 0x13 OR push_bit 7 (rd AND 0x1F) OR push_bit 20 (data AND 0xFFF)"

definition create_ld :: "32 word \<Rightarrow> 32 word \<Rightarrow> 32 word" where
  "create_ld rd rs1 = 0x3 OR push_bit 7 (rd AND 0x1F) OR push_bit 12 0x3 OR push_bit 15 (rs1 AND 0x1F)"

definition create_sd :: "32 word \<Rightarrow> 32 word \<Rightarrow> 32 word" where
  "create_sd rs1 rs2 = 0x23 OR push_bit 20 (rs2 AND 0x1F) OR push_bit 12 0x3 OR push_bit 15 (rs1 AND 0x1F)"

definition create_fld :: "32 word \<Rightarrow> 32 word \<Rightarrow> 32 word" where
  "create_fld rd rs1 = 0x7 OR push_bit 7 (rd AND 0x1F) OR push_bit 12 0x3 OR push_bit 15 (rs1 AND 0x1F)"

text \<open>
  The ROM under construction: the array \<open>rom\<close> of \<open>ROM_SIZE / 4\<close> words and the two
  cursors.  \<open>put_code\<close> is \<open>rom[code_pos++] = w\<close> and \<open>put_data\<close> is
  \<open>rom[data_pos++] = w\<close>.  The source tests the cursors against the bounds only after
  the last store; a state of the supported kind needs 476 code words from word 16 and 234
  data words from word 512, so no store leaves the array.
\<close>

record rom_state =
  rom :: "32 word list"
  code_pos :: "32 word"
  data_pos :: "32 word"

definition put_code :: "rom_state \<Rightarrow> 32 word \<Rightarrow> rom_state" where
  "put_code b w = b\<lparr>rom := (rom b)[unat (code_pos b) := w], code_pos := code_pos b + 1\<rparr>"

definition put_data :: "rom_state \<Rightarrow> 32 word \<Rightarrow> rom_state" where
  "put_data b w = b\<lparr>rom := (rom b)[unat (data_pos b) := w], data_pos := data_pos b + 1\<rparr>"

definition create_csr12_recovery :: "rom_state \<Rightarrow> 32 word \<Rightarrow> 16 word \<Rightarrow> rom_state" where
  "create_csr12_recovery b csrn val =
     put_code (put_code b (create_seti 1 (ucast (val AND 0xFFF)))) (create_csrrw 1 csrn)"

definition create_csr64_recovery :: "rom_state \<Rightarrow> 32 word \<Rightarrow> 64 word \<Rightarrow> rom_state" where
  "create_csr64_recovery b csrn val =
     (let data_off = 4 * (data_pos b - code_pos b);
          b1 = put_code b (create_auipc 1 data_off);
          b2 = put_code b1 (create_addi 1 data_off);
          b3 = put_code b2 (create_ld 1 1);
          b4 = put_code b3 (create_csrrw 1 csrn);
          b5 = put_data b4 (ucast (val AND 0xFFFFFFFF))
      in put_data b5 (ucast (drop_bit 32 val)))"

definition create_reg_recovery :: "rom_state \<Rightarrow> 32 word \<Rightarrow> 64 word \<Rightarrow> rom_state" where
  "create_reg_recovery b rn val =
     (let data_off = 4 * (data_pos b - code_pos b);
          b1 = put_code b (create_auipc rn data_off);
          b2 = put_code b1 (create_addi rn data_off);
          b3 = put_code b2 (create_ld rn rn);
          b4 = put_data b3 (ucast (val AND 0xFFFFFFFF))
      in put_data b4 (ucast (drop_bit 32 val)))"

definition create_io64_recovery :: "rom_state \<Rightarrow> 64 word \<Rightarrow> 64 word \<Rightarrow> rom_state" where
  "create_io64_recovery b addr val =
     (let data_off = 4 * (data_pos b - code_pos b);
          b1 = put_code b (create_auipc 1 data_off);
          b2 = put_code b1 (create_addi 1 data_off);
          b3 = put_code b2 (create_ld 1 1);
          b4 = put_data b3 (ucast (addr AND 0xFFFFFFFF));
          b5 = put_data b4 (ucast (drop_bit 32 addr));
          data_off2 = 4 * (data_pos b5 - code_pos b5);
          b6 = put_code b5 (create_auipc 2 data_off2);
          b7 = put_code b6 (create_addi 2 data_off2);
          b8 = put_code b7 (create_ld 2 2);
          b9 = put_code b8 (create_sd 1 2);
          b10 = put_data b9 (ucast (val AND 0xFFFFFFFF))
      in put_data b10 (ucast (drop_bit 32 val)))"

text \<open>
  The body of the loop \<open>for (int i = 0; i < 32; i++)\<close> that saves the FP registers: three
  code words, and the two data words \<open>(uint32_t)s->fp_reg[i]\<close> and
  \<open>(uint64_t)s->reg[i] >> 32\<close>.
\<close>

definition fp_reg_recovery :: "RISCVCPUState \<Rightarrow> nat \<Rightarrow> rom_state \<Rightarrow> rom_state" where
  "fp_reg_recovery s i b =
     (let data_off = 4 * (data_pos b - code_pos b);
          b1 = put_code b (create_auipc 1 data_off);
          b2 = put_code b1 (create_addi 1 data_off);
          b3 = put_code b2 (create_fld (of_nat i) 1);
          b4 = put_data b3 (ucast (fp_reg s ! i))
      in put_data b4 (ucast (drop_bit 32 (reg s ! i))))"

text \<open>The body of the loop that resets \<open>mhpmcounter3..31\<close> and saves
  \<open>mhpmevent3..31\<close>.\<close>

definition hpm_recovery :: "RISCVCPUState \<Rightarrow> nat \<Rightarrow> rom_state \<Rightarrow> rom_state" where
  "hpm_recovery s i b =
     create_csr64_recovery (create_csr12_recovery b (0xb00 + of_nat i) 0)
       (0x320 + of_nat i) (mhpmevent s ! i)"

datatype boot_rom_exit = EXIT_MINUS_3 | EXIT_MINUS_4 | EXIT_MINUS_6

text \<open>
  \<open>create_boot_rom\<close>, up to the call of \<open>serialize_memory\<close>: the result is the array
  that is written to the file, or the exit code of the process.  The body is given in
  three pieces, in the order of the source: the statements up to \<open>misa\<close> (in
  \<open>create_boot_rom\<close> itself), the block \<open>if (s->fs) { ... }\<close> with the FP CSRs and the FP
  registers (\<open>boot_rom_fp\<close>), and the statements from the \<open>mhpmevent\<close> loop to the
  \<open>dret\<close> (\<open>boot_rom_rest\<close>).
\<close>

definition boot_rom_fp :: "RISCVCPUState \<Rightarrow> rom_state \<Rightarrow> rom_state" where
  "boot_rom_fp s b =
     (if fs s \<noteq> 0 then
        (let c1 = create_csr12_recovery b 0x001 (ucast (fflags s));
             c2 = create_csr12_recovery c1 0x002 (ucast (frm s));
             c3 = create_csr12_recovery c2 0x003 (ucast (fflags s OR push_bit 5 (ucast (frm s))))
         in fold (fp_reg_recovery s) [0..<32] c3)
      else b)"

definition boot_rom_rest :: "RISCVCPUState \<Rightarrow> RISCVMachine \<Rightarrow> rom_state \<Rightarrow> rom_state" where
  "boot_rom_rest s m b5 =
     (let b6 = fold (hpm_recovery s) [3..<32] b5;
          b7 = create_csr64_recovery b6 0x7a0 (ucast (tselect s));
          b8 = create_csr64_recovery b7 0x302 (ucast (medeleg s));
          b9 = create_csr64_recovery b8 0x303 (ucast (mideleg s));
          b10 = create_csr64_recovery b9 0x304 (ucast (mie s));
          b11 = create_csr64_recovery b10 0x305 (mtvec s);
          b12 = create_csr64_recovery b11 0x105 (stvec s);
          b13 = create_csr12_recovery b12 0x306 (ucast (mcounteren s));
          b14 = create_csr12_recovery b13 0x106 (ucast (scounteren s));
          b15 = create_csr64_recovery b14 0x340 (mscratch s);
          b16 = create_csr64_recovery b15 0x341 (mepc s);
          b17 = create_csr64_recovery b16 0x342 (mcause s);
          b18 = create_csr64_recovery b17 0x343 (mtval s);
          b19 = create_csr64_recovery b18 0x140 (sscratch s);
          b20 = create_csr64_recovery b19 0x141 (sepc s);
          b21 = create_csr64_recovery b20 0x142 (scause s);
          b22 = create_csr64_recovery b21 0x143 (stval s);
          b23 = create_csr64_recovery b22 0x344 (ucast (mip s));
          b24 = fold (\<lambda>i b. create_reg_recovery b (of_nat i) (reg s ! i)) [3..<32] b23;
          b25 = create_io64_recovery b24 (CLINT_BASE_ADDR + 0x4000) (timecmp m);
          b26 = create_csr64_recovery b25 0xb02 (minstret s);
          b27 = create_csr64_recovery b26 0xb00 (mcycle s);
          b28 = create_io64_recovery b27 (CLINT_BASE_ADDR + 0xbff8) (mcycle s div RTC_FREQ_DIV);
          b29 = fold (\<lambda>i b. create_reg_recovery b (of_nat i) (reg s ! i)) [1..<3] b28;
          b30 = put_code b29 (create_csrrw 1 0x7b2);
          b31 = create_csr64_recovery b30 0x180 (satp s);
          b32 = put_code b31 (create_csrrs 1 0x7b2)
      in put_code b32 0x7b200073)"

definition create_boot_rom :: "RISCVCPUState \<Rightarrow> RISCVMachine \<Rightarrow> boot_rom_exit + 32 word list" where
  "create_boot_rom s m =
     (let b0 = \<lparr>rom = replicate (ROM_SIZE div 4) 0,
                code_pos = ucast ((BOOT_BASE_ADDR - ROM_BASE_ADDR) div 4),
                data_pos = of_nat (ROM_SIZE div 2 div 4)\<rparr>;
          data_pos_start = data_pos b0;
          b1 = create_csr64_recovery b0 0x7b1 (pc s)
      in if priv s \<noteq> PRV_U \<and> priv s \<noteq> PRV_S \<and> priv s \<noteq> PRV_M then Inl EXIT_MINUS_4
         else
           (let prv = (if priv s = PRV_U then 0 else if priv s = PRV_S then 1 else 3) :: 16 word;
                b2 = create_csr12_recovery b1 0x7b0 (0x600 OR prv);
                b3 = create_csr64_recovery b2 0x300 (get_mstatus s (- 1));
                b4 = create_csr64_recovery b3 0x301
                       (ucast (misa s) OR push_bit (unat (cur_xlen s) - 2) (ucast (mxl s)));
                b5 = boot_rom_fp s b4;
                b33 = boot_rom_rest s m b5
            in if data_pos b33 \<ge> of_nat (ROM_SIZE div 4) then Inl EXIT_MINUS_6
               else if code_pos b33 \<ge> data_pos_start then Inl EXIT_MINUS_6
               else Inr (rom b33)))"

text \<open>
  The end of \<open>riscv_cpu_serialize\<close>, the only caller of \<open>create_boot_rom\<close>: what is
  written to the file \<open>.bootram\<close>.  \<open>boot_ram\<close> and \<open>main_ram_found\<close> are what the loop
  over the memory ranges has found: the RAM range at \<open>ROM_BASE_ADDR\<close>, if any, and
  whether there is a RAM range at \<open>RAM_BASE_ADDR\<close>.  The configuration file and the file
  of the main RAM, written before, are not modelled.  A new boot ROM is created when the
  privilege is not M or the \<open>pc\<close> is beyond the ROM; at \<open>pc = BOOT_BASE_ADDR\<close> in M mode
  the boot RAM is written as it is.
\<close>

datatype bootram_file = New_boot_rom "32 word list" | Default_boot_ram PhysMemoryRange

definition riscv_cpu_serialize ::
  "RISCVCPUState \<Rightarrow> RISCVMachine \<Rightarrow> PhysMemoryRange option \<Rightarrow> bool \<Rightarrow> boot_rom_exit + bootram_file" where
  "riscv_cpu_serialize s m boot_ram main_ram_found =
     (case boot_ram of
        None \<Rightarrow> Inl EXIT_MINUS_3
      | Some pr \<Rightarrow>
          if \<not> main_ram_found then Inl EXIT_MINUS_3
          else if priv s \<noteq> 3 \<or> ROM_BASE_ADDR + of_nat ROM_SIZE < pc s then
            (case create_boot_rom s m of
               Inl e \<Rightarrow> Inl e
             | Inr r \<Rightarrow> Inr (New_boot_rom r))
          else if BOOT_BASE_ADDR < pc s then Inl EXIT_MINUS_4
          else if pc s = BOOT_BASE_ADDR then Inr (Default_boot_ram pr)
          else Inl EXIT_MINUS_4)"

text \<open>A snapshot state with the FPU on, in M mode at the start of the main RAM
  (\<open>RAM_BASE_ADDR\<close>): \<open>f1\<close> holds the double 1.0 and \<open>x1\<close> holds
  \<open>0x8000000012345678\<close>.\<close>

definition fp_snapshot :: RISCVCPUState where
  "fp_snapshot =
     (riscv_cpu_init None)\<lparr>pc := 0x80000000, fs := 3,
                            fp_reg := (replicate 32 0)[1 := 0x3FF0000000000000],
                            reg := (replicate 32 0)[1 := 0x8000000012345678]\<rparr>"

section \<open>An Sv39 address space\<close>

text \<open>
  A concrete memory and CPU state, used to run the walker: 64 KiB of RAM at
  \<open>0x80000000\<close> and the 16 bytes of the HTIF device at \<open>0x40008000\<close>.  The root table
  is at \<open>0x80002000\<close>.  Its entry 0 points to a table at \<open>0x80003000\<close>, whose entry 0
  points to a table at \<open>0x80004000\<close>, whose entry 1 is the leaf \<open>leaf\<close> for the virtual
  page \<open>0x1000\<close>.  Its entry 1 points to a table at \<open>0x40008000\<close>, inside the device.
  The CPU is in user mode with \<open>satp\<close> = Sv39 and the root's page number.
\<close>

definition sv39_ram :: "64 word \<Rightarrow> nat \<Rightarrow> 8 word" where
  "sv39_ram leaf =
     store_u64 (store_u64 (store_u64 (store_u64 (\<lambda>_. 0)
       0x2000 0x20000C01) 0x2008 0x10002001) 0x3000 0x20001001) 0x4008 leaf"

definition sv39_mem :: "64 word \<Rightarrow> phys_state" where
  "sv39_mem leaf =
     \<lparr>mem_map = [\<lparr>pr_addr = 0x80000000, pr_size = 0x10000, pr_is_ram = True,
                   pr_phys_mem = sv39_ram leaf\<rparr>,
                 \<lparr>pr_addr = 0x40008000, pr_size = 16, pr_is_ram = False,
                   pr_phys_mem = (\<lambda>_. 0)\<rparr>],
      checker_last_addr = 0, checker_last_data = 0, checker_last_size = 0\<rparr>"

definition sv39_user :: RISCVCPUState where
  "sv39_user = (riscv_cpu_init None)\<lparr>priv := PRV_U, satp := 0x8000000000080002\<rparr>"

text \<open>The machine as \<open>mallocz\<close> leaves it: every field zero, nothing written to the
  console yet.\<close>

definition zero_machine :: RISCVMachine where
  "zero_machine =
     \<lparr>ram_size = 0, rtc_real_time = False, rtc_start_time = 0, timecmp = 0,
      plic_pending_irq = 0, plic_served_irq = 0, htif_tohost = 0, htif_fromhost = 0,
      htif_tohost_addr = 0, virtio_count = 0, console_out = []\<rparr>"

text \<open>
  States with interrupts pending and enabled.  \<open>m_mode_masked\<close>: the machine and
  supervisor timer interrupts (bits 7 and 5), in M mode with \<open>mstatus.MIE\<close> clear.
  \<open>s_mode_pending ms\<close>: the supervisor software, supervisor timer and machine timer
  interrupts (bits 1, 5 and 7), in S mode with \<open>mstatus\<close> = \<open>ms\<close>, the supervisor
  interrupts (bits 1, 5 and 9) delegated, \<open>mtvec\<close> direct and \<open>stvec\<close> vectored.
\<close>

definition m_mode_masked :: RISCVCPUState where
  "m_mode_masked = (riscv_cpu_init None)\<lparr>mip := 0xA0, mie := 0xA0\<rparr>"

definition s_mode_pending :: "target_ulong \<Rightarrow> RISCVCPUState" where
  "s_mode_pending ms =
     (riscv_cpu_init None)\<lparr>priv := PRV_S, mip := 0xA2, mie := 0xA2, mideleg := 0x222,
        mstatus := ms, mtvec := 0x80000100, stvec := 0x80000201\<rparr>"

section \<open>Facts about the initial state\<close>

lemma init_priv: "priv (riscv_cpu_init e) = PRV_M"
  by (simp add: riscv_cpu_init_def tlb_init_def Let_def zero_state_def)

lemma init_dcsr: "dcsr (riscv_cpu_init e) = 0"
  by (simp add: riscv_cpu_init_def tlb_init_def Let_def zero_state_def)

lemma init_mstatus: "mstatus (riscv_cpu_init e) = 0xA00001800"
  by (simp add: riscv_cpu_init_def tlb_init_def Let_def zero_state_def get_base_from_xlen_def)

lemma init_tselect: "tselect (riscv_cpu_init e) = 0"
  by (simp add: riscv_cpu_init_def tlb_init_def Let_def zero_state_def)

lemma init_tdata3: "tdata3 (riscv_cpu_init e) = [0]"
  by (simp add: riscv_cpu_init_def tlb_init_def Let_def zero_state_def)

lemma init_mhpmevent: "mhpmevent (riscv_cpu_init e) = replicate 32 0"
  by (simp add: riscv_cpu_init_def tlb_init_def Let_def zero_state_def)

lemma init_terminate_simulation: "\<not> terminate_simulation (riscv_cpu_init e)"
  by (simp add: riscv_cpu_init_def tlb_init_def Let_def zero_state_def)

section \<open>The debug CSR dcsr\<close>

text \<open>
  What a write to \<open>dcsr\<close> does: the bits of the mask \<open>0x603\<close> are taken from the value
  written, every other bit of \<open>dcsr\<close> and every other field stay.  \<open>stop_the_counter\<close>
  becomes bit 0 of the new \<open>dcsr\<close>, which is the low bit of \<open>prv\<close>.
\<close>

lemma dcsr_write:
  "csr_write s 0x7b0 v =
     (0, s\<lparr>dcsr := (dcsr s AND NOT 0x603) OR (v AND 0x603),
           stop_the_counter := (((dcsr s AND NOT 0x603) OR (v AND 0x603)) AND 1 \<noteq> 0)\<rparr>)"
  by (simp add: csr_write_def Let_def)

text \<open>
  C1.  The claim: a write to \<open>dcsr\<close> changes only stopcount, stoptime and prv, and leaves
  \<open>stop_the_counter\<close> true exactly when the new \<open>dcsr\<close> has stopcount or stoptime set.
  The code at two inputs, from the initial state: writing \<open>0x200\<close> (stoptime) leaves
  \<open>dcsr & 0x600\<close> non-zero and \<open>stop_the_counter\<close> false; writing \<open>0x1\<close> (prv = 1)
  leaves \<open>dcsr & 0x600\<close> zero and \<open>stop_the_counter\<close> true.
\<close>

theorem dcsr_stop_the_counter_is_prv_bit:
  "dcsr (snd (csr_write (riscv_cpu_init None) 0x7b0 0x200)) AND 0x600 \<noteq> 0
   \<and> \<not> stop_the_counter (snd (csr_write (riscv_cpu_init None) 0x7b0 0x200))
   \<and> dcsr (snd (csr_write (riscv_cpu_init None) 0x7b0 0x1)) AND 0x600 = 0
   \<and> stop_the_counter (snd (csr_write (riscv_cpu_init None) 0x7b0 0x1))"
  by (simp add: dcsr_write init_dcsr)

section \<open>The validation CSR 0x8D0\<close>

text \<open>
  C5, as stated: a value whose bits 31:12 are \<open>0x1FEED\<close> sets
  \<open>terminate_simulation\<close>.  The value \<open>0x11FEED000\<close> has these bits and bit 32 as well,
  and the write leaves the flag clear: the code compares all of \<open>val >> 12\<close>.
\<close>

theorem validation0_high_bits_counterexample:
  "ucast (drop_bit 12 (0x11FEED000 :: 64 word)) AND (0xFFFFF :: 32 word) = 0x1FEED
   \<and> \<not> terminate_simulation (snd (csr_write (riscv_cpu_init None) 0x8D0 0x11FEED000))"
  by (simp add: csr_write_def init_terminate_simulation)

text \<open>
  C5, amended: a value \<open>v\<close> with \<open>v >> 12\<close> equal to \<open>0x1FEED\<close> or \<open>0x50BAD\<close> (bits
  63:12, so bits 63:32 are zero) sets \<open>terminate_simulation\<close>; a value whose bits 31:12 are
  \<open>0xDEAD0\<close> leaves \<open>terminate_simulation\<close> as it was.
\<close>

theorem validation0_markers:
  "(drop_bit 12 v = 0x1FEED \<or> drop_bit 12 v = 0x50BAD \<longrightarrow>
      terminate_simulation (snd (csr_write s 0x8D0 v)))
   \<and> (drop_bit 12 v AND 0xFFFFF = 0xDEAD0 \<longrightarrow>
      terminate_simulation (snd (csr_write s 0x8D0 v)) = terminate_simulation s)"
  by (simp add: csr_write_def)

theorem validation0_markers_witness:
  "terminate_simulation (snd (csr_write (riscv_cpu_init None) 0x8D0 0x1FEED005))
   \<and> terminate_simulation (snd (csr_write (riscv_cpu_init None) 0x8D0 0x50BAD001))
   \<and> terminate_simulation (snd (csr_write (riscv_cpu_init None) 0x8D0 0x7000000DEAD0123))
       = terminate_simulation (riscv_cpu_init None)"
  using validation0_markers[of "0x1FEED005" "riscv_cpu_init None"]
    validation0_markers[of "0x50BAD001" "riscv_cpu_init None"]
    validation0_markers[of "0x7000000DEAD0123" "riscv_cpu_init None"]
  by simp

section \<open>The trap vectors mtvec and stvec\<close>

lemma tvec_mask: "((v :: 64 word) AND (NOT 63 + 1)) AND NOT 2 = v AND NOT 0x3E"
  by (simp add: word_bw_assocs)

lemma mtvec_write:
  "csr_write s 0x305 v = (0, s\<lparr>mtvec := (if v AND 1 \<noteq> 0 then v AND NOT 0x3E else v AND NOT 2)\<rparr>)"
  using tvec_mask[of v] by (simp add: csr_write_def Let_def)

lemma stvec_write:
  "csr_write s 0x105 v = (0, s\<lparr>stvec := (if v AND 1 \<noteq> 0 then v AND NOT 0x3E else v AND NOT 2)\<rparr>)"
  using tvec_mask[of v] by (simp add: csr_write_def Let_def)

lemma mtvec_read:
  "3 \<le> (ucast (priv s) :: 32 word) \<Longrightarrow> csr_read s 0x305 w = (0, Some (mtvec s))"
  by (simp add: csr_read_def not_less)

lemma stvec_read:
  assumes "1 \<le> (ucast (priv s) :: 32 word)"
  shows "csr_read s 0x105 w = (0, Some (stvec s))"
proof -
  from assms have "(ucast (priv s) :: 32 word) \<noteq> 0" by auto
  then show ?thesis by (simp add: csr_read_def)
qed

text \<open>
  C6.  A write of \<open>v\<close> to \<open>mtvec\<close> (0x305) or \<open>stvec\<close> (0x105) succeeds and stores \<open>v\<close>
  with bits 5:1 cleared and bit 0 kept when bit 0 of \<open>v\<close> is set, and \<open>v\<close> with bit 1
  cleared otherwise; a read of the same CSR, at a privilege that may read it (bits 9:8 of
  the CSR number), returns the stored value.
\<close>

theorem tvec_write_then_read:
  assumes "csr = 0x305 \<or> csr = 0x105"
    and "drop_bit 8 csr AND 3 \<le> ucast (priv s)"
  shows "fst (csr_write s csr v) = 0
    \<and> (if csr = 0x305 then mtvec (snd (csr_write s csr v)) else stvec (snd (csr_write s csr v)))
        = (if v AND 1 \<noteq> 0 then v AND NOT 0x3E else v AND NOT 2)
    \<and> csr_read (snd (csr_write s csr v)) csr will_write
        = (0, Some (if v AND 1 \<noteq> 0 then v AND NOT 0x3E else v AND NOT 2))"
  using assms(1)
proof
  assume c: "csr = 0x305"
  with assms(2) have "3 \<le> (ucast (priv s) :: 32 word)" by simp
  then show ?thesis by (simp add: c mtvec_write mtvec_read)
next
  assume c: "csr = 0x105"
  with assms(2) have "1 \<le> (ucast (priv s) :: 32 word)" by simp
  then show ?thesis by (simp add: c stvec_write stvec_read)
qed

theorem tvec_write_then_read_witness:
  "csr_read (snd (csr_write (riscv_cpu_init None) 0x305 0x80000045)) 0x305 False = (0, Some 0x80000041)
   \<and> csr_read (snd (csr_write (riscv_cpu_init None) 0x105 0x80000046)) 0x105 False = (0, Some 0x80000044)"
proof -
  have a: "drop_bit 8 (0x305 :: 32 word) AND 3 \<le> ucast (priv (riscv_cpu_init None))"
    and b: "drop_bit 8 (0x105 :: 32 word) AND 3 \<le> ucast (priv (riscv_cpu_init None))"
    by (simp_all add: init_priv)
  show ?thesis
    using tvec_write_then_read[of "0x305" "riscv_cpu_init None" "0x80000045" False, OF _ a]
      tvec_write_then_read[of "0x105" "riscv_cpu_init None" "0x80000046" False, OF _ b]
    by simp
qed

section \<open>mstatus: the UXL and SXL fields\<close>

text \<open>What \<open>set_mstatus\<close> stores: the bits of \<open>MSTATUS_MASK\<close> without \<open>FS\<close> come from
  the value, bits 32 and 34 among them, and then bits 33 and 35 are set.\<close>

lemma set_mstatus_mstatus:
  "mstatus (set_mstatus s v) =
     ((mstatus s AND NOT 0xF007E19AA) OR (v AND 0xF007E19AA)) OR 0xA00000000"
  by (simp add: set_mstatus_def Let_def tlb_flush_all_def tlb_init_def)

text \<open>
  C7.  The claim: after every \<open>set_mstatus\<close>, \<open>UXL = 2\<close> and \<open>SXL = 2\<close>.  The code at two
  inputs, from the initial state: \<open>set_mstatus\<close> with bit 32 of the value set leaves
  \<open>UXL = 3\<close>, and a write of \<open>mstatus\<close> (CSR 0x300) with bit 34 set leaves \<open>SXL = 3\<close>.
\<close>

theorem set_mstatus_uxl_sxl_not_pinned:
  "drop_bit 32 (mstatus (set_mstatus (riscv_cpu_init None) 0x100001800)) AND 3 = 3
   \<and> drop_bit 34 (mstatus (snd (csr_write (riscv_cpu_init None) 0x300 0x400001800))) AND 3 = 3"
  by (simp add: csr_write_def set_mstatus_mstatus init_mstatus)

section \<open>The trigger CSR tdata3\<close>

lemma tdata3_write:
  "csr_write s 0x7a3 v =
     (0, s\<lparr>tdata3 := (tdata3 s)[unat (tselect s) := v], mhpmevent := (mhpmevent s)[3 := v]\<rparr>)"
  by (simp add: csr_write_def write_mhpmevent_def)

text \<open>
  C9.  A write of \<open>v\<close> to CSR 0x7a3 stores \<open>v\<close> into \<open>tdata3[tselect]\<close> and, through the
  missing \<open>break\<close>, into \<open>mhpmevent[3]\<close> as well, and changes nothing else.  The
  hypotheses say that the two arrays have their entries: \<open>tselect\<close> indexes \<open>tdata3\<close> and
  \<open>mhpmevent\<close> has 32 entries.
\<close>

theorem tdata3_write_falls_through:
  assumes "unat (tselect s) < length (tdata3 s)" and "length (mhpmevent s) = 32"
  shows "csr_write s 0x7a3 v =
           (0, s\<lparr>tdata3 := (tdata3 s)[unat (tselect s) := v], mhpmevent := (mhpmevent s)[3 := v]\<rparr>)
     \<and> tdata3 (snd (csr_write s 0x7a3 v)) ! unat (tselect (snd (csr_write s 0x7a3 v))) = v
     \<and> mhpmevent (snd (csr_write s 0x7a3 v)) ! 3 = v"
  using assms by (simp add: tdata3_write)

theorem tdata3_write_falls_through_witness:
  "tdata3 (snd (csr_write (riscv_cpu_init None) 0x7a3 0x1234)) ! 0 = 0x1234
   \<and> mhpmevent (snd (csr_write (riscv_cpu_init None) 0x7a3 0x1234)) ! 3 = 0x1234
   \<and> mhpmevent (riscv_cpu_init None) ! 3 = 0"
  using tdata3_write_falls_through[of "riscv_cpu_init None" "0x1234"]
  by (simp add: init_tselect init_tdata3 init_mhpmevent)

section \<open>The page-table walk\<close>

declare walk.simps [simp del]

lemma phys_read_u64_mem_map: "phys_read_u64 m a = (pte, m1) \<Longrightarrow> mem_map m1 = mem_map m"
  by (auto simp add: phys_read_u64_def TRACK_MEM_def Let_def split: option.splits if_splits)

lemma phys_read_u64_not_ram: "\<not> ram_backed m a \<Longrightarrow> phys_read_u64 m a = (0, m)"
  by (simp add: phys_read_u64_def ram_backed_def Let_def split: option.splits)

lemma leaf_pte_mem_map: "mem_map (snd (leaf_pte s m p a v l i pa pte)) = mem_map m"
  by (simp add: leaf_pte_def Let_def CONFIG_SW_MANAGED_A_AND_D_def)

lemma leaf_pte_error: "fst (leaf_pte s m p a v l i pa pte) = Inl e \<Longrightarrow> e = - 1"
  by (simp add: leaf_pte_def Let_def CONFIG_SW_MANAGED_A_AND_D_def split: if_splits)

lemma walk_step:
  assumes "i < l" and "phys_read_u64 m (pte_slot v l i tbl) = (pte, m1)"
  shows "walk s m p a v l i tbl =
     (if pte AND 1 = 0 then (Inl (- 1), m1)
      else if drop_bit 1 pte AND 7 \<noteq> 0 then leaf_pte s m1 p a v l i (pte_slot v l i tbl) pte
      else walk s m1 p a v l (i + 1) (push_bit 12 (drop_bit 10 pte)))"
  using assms by (subst walk.simps) (simp add: pte_slot_def Let_def)

lemma walk_done: "\<not> i < l \<Longrightarrow> walk s m p a v l i tbl = (Inl (- 1), m)"
  by (subst walk.simps) simp

lemma walk_mem_map: "mem_map (snd (walk s m p a v l i tbl)) = mem_map m"
proof (induction s m p a v l i tbl rule: walk.induct)
  case (1 s m p a v l i tbl)
  show ?case
  proof (cases "i < l")
    case False
    then show ?thesis by (simp add: walk_done)
  next
    case True
    obtain pte m1 where r: "phys_read_u64 m (pte_slot v l i tbl) = (pte, m1)"
      by (cases "phys_read_u64 m (pte_slot v l i tbl)")
    note mm = phys_read_u64_mem_map[OF r]
    show ?thesis
    proof (cases "pte AND 1 \<noteq> 0 \<and> drop_bit 1 pte AND 7 = 0")
      case False
      then show ?thesis
        by (auto simp add: walk_step[OF True r] mm leaf_pte_mem_map)
    next
      case x: True
      have "mem_map (snd (walk s m1 p a v l (i + 1) (push_bit 12 (drop_bit 10 pte)))) = mem_map m1"
        using "1.IH"[OF True refl refl refl r[unfolded pte_slot_def, symmetric] refl] x by simp
      with x show ?thesis by (simp add: walk_step[OF True r] mm)
    qed
  qed
qed

lemma walk_error: "fst (walk s m p a v l i tbl) = Inl e \<Longrightarrow> e = - 1"
proof (induction s m p a v l i tbl rule: walk.induct)
  case (1 s m p a v l i tbl)
  show ?case
  proof (cases "i < l")
    case False
    with "1.prems" show ?thesis by (simp add: walk_done)
  next
    case True
    obtain pte m1 where r: "phys_read_u64 m (pte_slot v l i tbl) = (pte, m1)"
      by (cases "phys_read_u64 m (pte_slot v l i tbl)")
    show ?thesis
    proof (cases "pte AND 1 \<noteq> 0 \<and> drop_bit 1 pte AND 7 = 0")
      case False
      with "1.prems" show ?thesis
        by (auto simp add: walk_step[OF True r] dest: leaf_pte_error split: if_splits)
    next
      case x: True
      from "1.prems" x
      have "fst (walk s m1 p a v l (i + 1) (push_bit 12 (drop_bit 10 pte))) = Inl e"
        by (simp add: walk_step[OF True r])
      with x show ?thesis
        using "1.IH"[OF True refl refl refl r[unfolded pte_slot_def, symmetric] refl] by simp
    qed
  qed
qed

lemma visit_root: "walk_visits m0 v l root 0 root m0"
  by (simp add: walk_visits_def)

lemma visit_next:
  assumes "walk_visits m0 v l root i tbl m" and "i < l"
    and "phys_read_u64 m (pte_slot v l i tbl) = (pte, m1)"
    and "pte AND PTE_V_MASK \<noteq> 0" and "drop_bit 1 pte AND 7 = 0"
  shows "walk_visits m0 v l root (i + 1) (push_bit PG_SHIFT (drop_bit 10 pte)) m1"
proof -
  from assms(1) have i: "0 \<le> i" and t: "walk_table m0 v l root (nat i) = Some (tbl, m)"
    by (simp_all add: walk_visits_def)
  from i have n: "nat (i + 1) = Suc (nat i)" by simp
  show ?thesis
    using i assms(2-5) by (simp add: walk_visits_def n t)
qed

lemma walk_table_walk:
  "walk_table m0 v l root n = Some (tbl, m) \<Longrightarrow>
   walk s m0 p a v l 0 root = walk s m p a v l (int n) tbl"
proof (induction n arbitrary: tbl m)
  case 0
  then show ?case by simp
next
  case (Suc n)
  from Suc.prems obtain tbl' m' where
    t: "walk_table m0 v l root n = Some (tbl', m')"
    by (auto split: option.splits)
  from Suc.prems t have lt: "int n < l"
    by (auto split: if_splits)
  obtain pte m1 where r: "phys_read_u64 m' (pte_slot v l (int n) tbl') = (pte, m1)"
    by (cases "phys_read_u64 m' (pte_slot v l (int n) tbl')")
  from Suc.prems t lt r have x: "pte AND 1 \<noteq> 0" "drop_bit 1 pte AND 7 = 0"
    and e: "tbl = push_bit 12 (drop_bit 10 pte)" "m = m1"
    by (auto split: if_splits)
  have "walk s m0 p a v l 0 root = walk s m' p a v l (int n) tbl'"
    by (rule Suc.IH[OF t])
  also have "\<dots> = walk s m1 p a v l (int n + 1) (push_bit 12 (drop_bit 10 pte))"
    using x by (simp add: walk_step[OF lt r])
  finally show ?case
    by (simp add: e add.commute)
qed

lemma walk_table_mem_map:
  "walk_table m0 v l root n = Some (tbl, m) \<Longrightarrow> mem_map m = mem_map m0"
proof (induction n arbitrary: tbl m)
  case 0
  then show ?case by simp
next
  case (Suc n)
  from Suc.prems obtain tbl' m' where
    t: "walk_table m0 v l root n = Some (tbl', m')"
    by (auto split: option.splits)
  obtain pte m1 where r: "phys_read_u64 m' (pte_slot v l (int n) tbl') = (pte, m1)"
    by (cases "phys_read_u64 m' (pte_slot v l (int n) tbl')")
  from Suc.prems t r have "m = m1"
    by (auto split: if_splits)
  then show ?case
    using phys_read_u64_mem_map[OF r] Suc.IH[OF t] by simp
qed

lemma walk_visits_walk:
  "walk_visits m0 v l root i tbl m \<Longrightarrow> walk s m0 p a v l 0 root = walk s m p a v l i tbl"
  using walk_table_walk[of m0 v l root "nat i" tbl m s p a] by (simp add: walk_visits_def)

lemma walk_visits_mem_map: "walk_visits m0 v l root i tbl m \<Longrightarrow> mem_map m = mem_map m0"
  using walk_table_mem_map[of m0 v l root "nat i" tbl m] by (simp add: walk_visits_def)

lemma get_phys_addr_mem_map: "mem_map (snd (get_phys_addr s m v a)) = mem_map m"
  by (simp add: get_phys_addr_def Let_def walk_mem_map)

lemma get_phys_addr_error:
  assumes "(if mstatus s AND MSTATUS_MPRV \<noteq> 0 \<and> a \<noteq> ACCESS_CODE
    then ucast (drop_bit MSTATUS_MPP_SHIFT (mstatus s) AND 3) else priv s) \<noteq> PRV_M"
    and "fst (get_phys_addr s m v a) = Inl e"
  shows "e = - 1"
  using assms
  by (auto simp add: get_phys_addr_def Let_def split: if_splits dest: walk_error)

lemma get_phys_addr_walk:
  assumes "p = (if mstatus s AND MSTATUS_MPRV \<noteq> 0 \<and> a \<noteq> ACCESS_CODE
    then ucast (drop_bit MSTATUS_MPP_SHIFT (mstatus s) AND 3) else priv s)"
   and "p \<noteq> PRV_M"
   and "uint (drop_bit 60 (satp s) AND 0xf) = l + 5" and "l = 3 \<or> l = 4"
   and "signed_drop_bit (nat (52 - 9 * l)) (push_bit (nat (52 - 9 * l)) v) = v"
 shows "get_phys_addr s m v a = walk s m p a v l 0 (push_bit 12 (satp s AND (push_bit 44 1 - 1)))"
  using assms by (auto simp add: get_phys_addr_def Let_def)


lemma leaf_pte_checked:
  assumes "drop_bit 1 pte AND 7 \<noteq> 2" and "drop_bit 1 pte AND 7 \<noteq> 6"
    and "if p = PRV_S then pte AND PTE_U_MASK = 0 \<or> mstatus s AND MSTATUS_SUM \<noteq> 0
         else pte AND PTE_U_MASK \<noteq> 0"
    and "drop_bit a (if mstatus s AND MSTATUS_MXR \<noteq> 0
                     then (drop_bit 1 pte AND 7) OR drop_bit 2 (drop_bit 1 pte AND 7)
                     else drop_bit 1 pte AND 7) AND 1 \<noteq> 0"
    and "(push_bit (nat (l - 1 - i)) 1 - 1) AND (ucast (drop_bit 10 pte) :: 32 word) = 0"
  shows "leaf_pte s m p a v l i slot pte =
     (if pte AND PTE_A_MASK = 0 then (Inl (- 1), m)
      else if a = ACCESS_WRITE \<and> pte AND PTE_D_MASK = 0 then (Inl (- 1), m)
      else (Inr ((push_bit PG_SHIFT (drop_bit 10 pte) AND NOT (push_bit (nat (int PG_SHIFT + 9 * (l - 1 - i))) 1 - 1))
                 OR (v AND (push_bit (nat (int PG_SHIFT + 9 * (l - 1 - i))) 1 - 1))), m))"
proof -
  have f1: "(drop_bit 1 pte AND 7 = 2 \<or> drop_bit 1 pte AND 7 = 6) = False"
    using assms(1,2) by blast
  have f2: "(p = 1 \<and> pte AND 0x10 \<noteq> 0 \<and> mstatus s AND 0x40000 = 0) = False"
    using assms(3) by (cases "p = 1") auto
  have f3: "(p \<noteq> 1 \<and> pte AND 0x10 = 0) = False"
    using assms(3) by (cases "p = 1") auto
  have f4: "(drop_bit a (if mstatus s AND 0x80000 \<noteq> 0
                     then (drop_bit 1 pte AND 7) OR drop_bit 2 (drop_bit 1 pte AND 7)
                     else drop_bit 1 pte AND 7) AND 1 = 0) = False"
    using assms(4) by blast
  have f5: "((push_bit (nat (l - 1 - i)) 1 - 1) AND (ucast (drop_bit 10 pte) :: 32 word) \<noteq> 0) = False"
    using assms(5) by blast
  show ?thesis
    unfolding leaf_pte_def Let_def CONFIG_SW_MANAGED_A_AND_D_def
    by (simp only: f1 f2 f3 f4 f5 if_False if_True)
qed

text \<open>
  C2.  Take a walk under Sv39 or Sv48 (\<open>satp.mode\<close> = \<open>l + 5\<close> with \<open>l\<close> = 3 or 4 levels),
  at an effective privilege \<open>p\<close> below M, for a sign-extended address \<open>v\<close>, that arrives
  on level \<open>i\<close> at a PTE \<open>pte\<close> which is valid, is a leaf (\<open>xwr\<close> not 0), and passes the
  reserved-encoding test (\<open>xwr\<close> not 2 or 6), the user/supervisor test, the permission test
  for the access \<open>a\<close> and the superpage-alignment test.  Then \<open>get_phys_addr\<close> returns -1
  when the \<open>A\<close> bit is clear, returns -1 when the access is a write and the \<open>D\<close> bit is
  clear, and returns the physical address otherwise.  -1 is what the three callers turn
  into the load, store and fetch page fault.  For every input whatsoever, the ranges of
  the memory map, and so every PTE, are after the call what they were before.
\<close>

theorem sw_managed_a_and_d:
  "mem_map (snd (get_phys_addr s m v a)) = mem_map m
   \<and> target_read_slow_exception (- 1) = CAUSE_LOAD_PAGE_FAULT
   \<and> target_write_slow_exception (- 1) = CAUSE_STORE_PAGE_FAULT
   \<and> target_read_insn_slow_exception (- 1) = CAUSE_FETCH_PAGE_FAULT
   \<and> (p = (if mstatus s AND MSTATUS_MPRV \<noteq> 0 \<and> a \<noteq> ACCESS_CODE
            then ucast (drop_bit MSTATUS_MPP_SHIFT (mstatus s) AND 3) else priv s)
       \<and> p \<noteq> PRV_M
       \<and> uint (drop_bit 60 (satp s) AND 0xf) = l + 5 \<and> (l = 3 \<or> l = 4)
       \<and> signed_drop_bit (nat (52 - 9 * l)) (push_bit (nat (52 - 9 * l)) v) = v
       \<and> walk_visits m v l (push_bit PG_SHIFT (satp s AND (push_bit 44 1 - 1))) i tbl mi
       \<and> i < l
       \<and> phys_read_u64 mi (pte_slot v l i tbl) = (pte, m1)
       \<and> pte AND PTE_V_MASK \<noteq> 0
       \<and> drop_bit 1 pte AND 7 \<noteq> 0 \<and> drop_bit 1 pte AND 7 \<noteq> 2 \<and> drop_bit 1 pte AND 7 \<noteq> 6
       \<and> (if p = PRV_S then pte AND PTE_U_MASK = 0 \<or> mstatus s AND MSTATUS_SUM \<noteq> 0
           else pte AND PTE_U_MASK \<noteq> 0)
       \<and> drop_bit a (if mstatus s AND MSTATUS_MXR \<noteq> 0
                       then (drop_bit 1 pte AND 7) OR drop_bit 2 (drop_bit 1 pte AND 7)
                       else drop_bit 1 pte AND 7) AND 1 \<noteq> 0
       \<and> (push_bit (nat (l - 1 - i)) 1 - 1) AND (ucast (drop_bit 10 pte) :: 32 word) = 0
      \<longrightarrow>
        (pte AND PTE_A_MASK = 0 \<longrightarrow> fst (get_phys_addr s m v a) = Inl (- 1))
      \<and> (a = ACCESS_WRITE \<and> pte AND PTE_D_MASK = 0 \<longrightarrow> fst (get_phys_addr s m v a) = Inl (- 1))
      \<and> (pte AND PTE_A_MASK \<noteq> 0 \<and> (a = ACCESS_WRITE \<longrightarrow> pte AND PTE_D_MASK \<noteq> 0) \<longrightarrow>
           fst (get_phys_addr s m v a) =
             Inr ((push_bit PG_SHIFT (drop_bit 10 pte) AND NOT (push_bit (nat (int PG_SHIFT + 9 * (l - 1 - i))) 1 - 1))
                  OR (v AND (push_bit (nat (int PG_SHIFT + 9 * (l - 1 - i))) 1 - 1)))))"
  (is "_ \<and> _ \<and> _ \<and> _ \<and> (?H \<longrightarrow> ?C)")
proof (intro conjI)
  show "mem_map (snd (get_phys_addr s m v a)) = mem_map m"
    by (rule get_phys_addr_mem_map)
  show "target_read_slow_exception (- 1) = CAUSE_LOAD_PAGE_FAULT"
    by (simp add: target_read_slow_exception_def)
  show "target_write_slow_exception (- 1) = CAUSE_STORE_PAGE_FAULT"
    by (simp add: target_write_slow_exception_def)
  show "target_read_insn_slow_exception (- 1) = CAUSE_FETCH_PAGE_FAULT"
    by (simp add: target_read_insn_slow_exception_def)
  show "?H \<longrightarrow> ?C"
  proof
    assume h: ?H
    from h have h1: "p = (if mstatus s AND MSTATUS_MPRV \<noteq> 0 \<and> a \<noteq> ACCESS_CODE
            then ucast (drop_bit MSTATUS_MPP_SHIFT (mstatus s) AND 3) else priv s)" by blast
    from h have h2: "p \<noteq> PRV_M" by blast
    from h have h3: "uint (drop_bit 60 (satp s) AND 0xf) = l + 5" by blast
    from h have h4: "l = 3 \<or> l = 4" by blast
    from h have h5: "signed_drop_bit (nat (52 - 9 * l)) (push_bit (nat (52 - 9 * l)) v) = v" by blast
    from h have h6: "walk_visits m v l (push_bit PG_SHIFT (satp s AND (push_bit 44 1 - 1))) i tbl mi" by blast
    from h have h7: "i < l" by blast
    from h have h8: "phys_read_u64 mi (pte_slot v l i tbl) = (pte, m1)" by blast
    from h have h9: "pte AND PTE_V_MASK \<noteq> 0" by blast
    from h have h10: "drop_bit 1 pte AND 7 \<noteq> 0" by blast
    from h have h11: "drop_bit 1 pte AND 7 \<noteq> 2" by blast
    from h have h12: "drop_bit 1 pte AND 7 \<noteq> 6" by blast
    from h have h13: "if p = PRV_S then pte AND PTE_U_MASK = 0 \<or> mstatus s AND MSTATUS_SUM \<noteq> 0
           else pte AND PTE_U_MASK \<noteq> 0" by blast
    from h have h14: "drop_bit a (if mstatus s AND MSTATUS_MXR \<noteq> 0
                       then (drop_bit 1 pte AND 7) OR drop_bit 2 (drop_bit 1 pte AND 7)
                       else drop_bit 1 pte AND 7) AND 1 \<noteq> 0" by blast
    from h have h15: "(push_bit (nat (l - 1 - i)) 1 - 1) AND (ucast (drop_bit 10 pte) :: 32 word) = 0" by blast
    have g: "get_phys_addr s m v a = walk s m p a v l 0 (push_bit 12 (satp s AND (push_bit 44 1 - 1)))"
      by (rule get_phys_addr_walk[OF h1 h2 h3 h4 h5])
    have w: "walk s m p a v l 0 (push_bit 12 (satp s AND (push_bit 44 1 - 1))) = walk s mi p a v l i tbl"
      by (rule walk_visits_walk[OF h6])
    have st: "walk s mi p a v l i tbl = leaf_pte s m1 p a v l i (pte_slot v l i tbl) pte"
      using h9 h10 by (simp only: walk_step[OF h7 h8] if_False if_True simp_thms)
    note lf = leaf_pte_checked[OF h11 h12 h13 h14 h15, of m1 v "pte_slot v l i tbl"]
    have all: "fst (get_phys_addr s m v a) =
       fst (if pte AND PTE_A_MASK = 0 then (Inl (- 1), m1)
      else if a = ACCESS_WRITE \<and> pte AND PTE_D_MASK = 0 then (Inl (- 1), m1)
      else (Inr ((push_bit PG_SHIFT (drop_bit 10 pte) AND NOT (push_bit (nat (int PG_SHIFT + 9 * (l - 1 - i))) 1 - 1))
                 OR (v AND (push_bit (nat (int PG_SHIFT + 9 * (l - 1 - i))) 1 - 1))), m1))"
      by (simp only: g w st lf)
    show ?C
      unfolding all by (simp only: split: if_split) auto
  qed
qed


lemma sv39_range:
  "mem_map m = mem_map (sv39_mem leaf) \<Longrightarrow>
   get_phys_mem_range (mem_map m) a =
     (if 0x80000000 \<le> a \<and> a < 0x80010000 then Some 0
      else if 0x40008000 \<le> a \<and> a < 0x40008010 then Some 1 else None)"
  by (simp add: sv39_mem_def get_phys_mem_range_def)

lemma sv39_read:
  assumes "mem_map m = mem_map (sv39_mem leaf)" and "0x80000000 \<le> a" and "a < 0x80010000"
  shows "phys_read_u64 m a =
           (load_u64 (sv39_ram leaf) (unat (a - 0x80000000)),
            TRACK_MEM m a 64 (load_u64 (sv39_ram leaf) (unat (a - 0x80000000))))"
proof -
  have mm: "mem_map m ! 0 = \<lparr>pr_addr = 0x80000000, pr_size = 0x10000, pr_is_ram = True,
                          pr_phys_mem = sv39_ram leaf\<rparr>"
    using assms(1) by (simp add: sv39_mem_def)
  have r: "get_phys_mem_range (mem_map m) a = Some 0"
    using sv39_range[OF assms(1), of a] assms(2,3) by simp
  show ?thesis
    unfolding phys_read_u64_def r by (simp add: mm Let_def)
qed

lemma sv39_ram_root: "load_u64 (sv39_ram leaf) 0x2000 = 0x20000C01"
  by (simp add: sv39_ram_def load_u64_def store_u64_def)

lemma sv39_ram_mid: "load_u64 (sv39_ram leaf) 0x3000 = 0x20001001"
  by (simp add: sv39_ram_def load_u64_def store_u64_def)

lemma sv39_ram_leaf_no_a: "load_u64 (sv39_ram 0x2000049F) 0x4008 = 0x2000049F"
  by (simp add: sv39_ram_def load_u64_def store_u64_def)

lemma sv39_ram_leaf_no_d: "load_u64 (sv39_ram 0x2000045F) 0x4008 = 0x2000045F"
  by (simp add: sv39_ram_def load_u64_def store_u64_def)

lemma TRACK_MEM_mem_map: "mem_map (TRACK_MEM m a n x) = mem_map m"
  by (simp add: TRACK_MEM_def)

lemma sv39_user_fields:
  "satp sv39_user = 0x8000000000080002" "mstatus sv39_user = 0xA00001800" "priv sv39_user = 0"
  by (simp_all add: sv39_user_def init_mstatus)

lemma sv39_visits:
  "walk_visits (sv39_mem leaf) 0x1000 3 0x80002000 2 0x80004000
     (TRACK_MEM (TRACK_MEM (sv39_mem leaf) 0x80002000 64 0x20000C01) 0x80003000 64 0x20001001)"
proof -
  let ?m0 = "sv39_mem leaf"
  let ?m1 = "TRACK_MEM ?m0 0x80002000 64 0x20000C01"
  let ?m2 = "TRACK_MEM ?m1 0x80003000 64 0x20001001"
  have v0: "walk_visits ?m0 0x1000 3 0x80002000 0 0x80002000 ?m0"
    by (rule visit_root)
  have r0: "phys_read_u64 ?m0 (pte_slot 0x1000 3 0 0x80002000) = (0x20000C01, ?m1)"
    by (simp add: pte_slot_def sv39_read[of _ leaf] sv39_ram_root)
  have v1: "walk_visits ?m0 0x1000 3 0x80002000 1 0x80003000 ?m1"
    using visit_next[OF v0 _ r0] by simp
  have r1: "phys_read_u64 ?m1 (pte_slot 0x1000 3 1 0x80003000) = (0x20001001, ?m2)"
    by (simp add: pte_slot_def sv39_read[of _ leaf] sv39_ram_mid TRACK_MEM_mem_map)
  show ?thesis
    using visit_next[OF v1 _ r1] by simp
qed

lemma sv39_read_leaf:
  assumes "load_u64 (sv39_ram leaf) 0x4008 = leaf"
  shows "phys_read_u64 (TRACK_MEM (TRACK_MEM (sv39_mem leaf) 0x80002000 64 0x20000C01) 0x80003000 64 0x20001001)
           (pte_slot 0x1000 3 2 0x80004000)
         = (leaf, TRACK_MEM (TRACK_MEM (TRACK_MEM (sv39_mem leaf) 0x80002000 64 0x20000C01) 0x80003000 64 0x20001001)
                    0x80004008 64 leaf)"
  by (simp add: pte_slot_def sv39_read[of _ leaf] assms TRACK_MEM_mem_map)

theorem sw_managed_a_and_d_witness:
  "fst (get_phys_addr sv39_user (sv39_mem 0x2000049F) 0x1000 ACCESS_READ) = Inl (- 1)
   \<and> fst (get_phys_addr sv39_user (sv39_mem 0x2000045F) 0x1000 ACCESS_WRITE) = Inl (- 1)
   \<and> fst (get_phys_addr sv39_user (sv39_mem 0x2000045F) 0x1000 ACCESS_READ) = Inr 0x80001000"
proof (intro conjI)
  show "fst (get_phys_addr sv39_user (sv39_mem 0x2000049F) 0x1000 ACCESS_READ) = Inl (- 1)"
    using sw_managed_a_and_d[of sv39_user "sv39_mem 0x2000049F" "0x1000" ACCESS_READ PRV_U 3 2
        "0x80004000" _ "0x2000049F"]
      sv39_visits[of "0x2000049F"] sv39_read_leaf[OF sv39_ram_leaf_no_a]
    by (simp add: sv39_user_fields)
  show "fst (get_phys_addr sv39_user (sv39_mem 0x2000045F) 0x1000 ACCESS_WRITE) = Inl (- 1)"
    using sw_managed_a_and_d[of sv39_user "sv39_mem 0x2000045F" "0x1000" ACCESS_WRITE PRV_U 3 2
        "0x80004000" _ "0x2000045F"]
      sv39_visits[of "0x2000045F"] sv39_read_leaf[OF sv39_ram_leaf_no_d]
    by (simp add: sv39_user_fields)
  show "fst (get_phys_addr sv39_user (sv39_mem 0x2000045F) 0x1000 ACCESS_READ) = Inr 0x80001000"
    using sw_managed_a_and_d[of sv39_user "sv39_mem 0x2000045F" "0x1000" ACCESS_READ PRV_U 3 2
        "0x80004000" _ "0x2000045F"]
      sv39_visits[of "0x2000045F"] sv39_read_leaf[OF sv39_ram_leaf_no_d]
    by (simp add: sv39_user_fields)
qed


lemma ram_backed_mem_map: "mem_map m' = mem_map m \<Longrightarrow> ram_backed m' a = ram_backed m a"
  unfolding ram_backed_def by (simp only:)

text \<open>
  C10.  A 64-bit physical read at an address that no RAM range backs (no range at all, or
  a device range) returns 0.  Below M, every error of \<open>get_phys_addr\<close> is -1, which the
  three callers turn into the load, store and fetch page fault, never into an access
  fault.  And a walk under Sv39 or Sv48 that arrives on level \<open>i\<close> at a table whose PTE for
  the address lies outside RAM returns -1.
\<close>

theorem pte_outside_ram_page_fault:
  "(\<not> ram_backed m a0 \<longrightarrow> fst (phys_read_u64 m a0) = 0)
   \<and> (p = (if mstatus s AND MSTATUS_MPRV \<noteq> 0 \<and> a \<noteq> ACCESS_CODE
            then ucast (drop_bit MSTATUS_MPP_SHIFT (mstatus s) AND 3) else priv s)
       \<and> p \<noteq> PRV_M \<and> fst (get_phys_addr s m v a) = Inl e
      \<longrightarrow> e = - 1
          \<and> target_read_slow_exception e = CAUSE_LOAD_PAGE_FAULT
          \<and> target_write_slow_exception e = CAUSE_STORE_PAGE_FAULT
          \<and> target_read_insn_slow_exception e = CAUSE_FETCH_PAGE_FAULT)
   \<and> (p = (if mstatus s AND MSTATUS_MPRV \<noteq> 0 \<and> a \<noteq> ACCESS_CODE
            then ucast (drop_bit MSTATUS_MPP_SHIFT (mstatus s) AND 3) else priv s)
       \<and> p \<noteq> PRV_M
       \<and> uint (drop_bit 60 (satp s) AND 0xf) = l + 5 \<and> (l = 3 \<or> l = 4)
       \<and> signed_drop_bit (nat (52 - 9 * l)) (push_bit (nat (52 - 9 * l)) v) = v
       \<and> walk_visits m v l (push_bit PG_SHIFT (satp s AND (push_bit 44 1 - 1))) i tbl mi
       \<and> i < l
       \<and> \<not> ram_backed m (pte_slot v l i tbl)
      \<longrightarrow> fst (get_phys_addr s m v a) = Inl (- 1))"
  (is "?A \<and> (?H1 \<longrightarrow> ?C1) \<and> (?H2 \<longrightarrow> ?C2)")
proof (intro conjI)
  show ?A by (simp add: phys_read_u64_not_ram)
  show "?H1 \<longrightarrow> ?C1"
  proof
    assume h: ?H1
    then have "e = - 1" using get_phys_addr_error[of s a m v e] by blast
    then show ?C1
      by (simp add: target_read_slow_exception_def target_write_slow_exception_def
          target_read_insn_slow_exception_def)
  qed
  show "?H2 \<longrightarrow> ?C2"
  proof
    assume h: ?H2
    from h have h1: "p = (if mstatus s AND MSTATUS_MPRV \<noteq> 0 \<and> a \<noteq> ACCESS_CODE
            then ucast (drop_bit MSTATUS_MPP_SHIFT (mstatus s) AND 3) else priv s)" by blast
    from h have h2: "p \<noteq> PRV_M" by blast
    from h have h3: "uint (drop_bit 60 (satp s) AND 0xf) = l + 5" by blast
    from h have h4: "l = 3 \<or> l = 4" by blast
    from h have h5: "signed_drop_bit (nat (52 - 9 * l)) (push_bit (nat (52 - 9 * l)) v) = v" by blast
    from h have h6: "walk_visits m v l (push_bit PG_SHIFT (satp s AND (push_bit 44 1 - 1))) i tbl mi" by blast
    from h have h7: "i < l" by blast
    from h have h8: "\<not> ram_backed m (pte_slot v l i tbl)" by blast
    have "\<not> ram_backed mi (pte_slot v l i tbl)"
      using h8 ram_backed_mem_map[OF walk_visits_mem_map[OF h6]] by simp
    then have r: "phys_read_u64 mi (pte_slot v l i tbl) = (0, mi)"
      by (rule phys_read_u64_not_ram)
    have g: "get_phys_addr s m v a = walk s m p a v l 0 (push_bit 12 (satp s AND (push_bit 44 1 - 1)))"
      by (rule get_phys_addr_walk[OF h1 h2 h3 h4 h5])
    have w: "walk s m p a v l 0 (push_bit 12 (satp s AND (push_bit 44 1 - 1))) = walk s mi p a v l i tbl"
      by (rule walk_visits_walk[OF h6])
    have st: "walk s mi p a v l i tbl = (Inl (- 1), mi)"
      by (simp add: walk_step[OF h7 r])
    show ?C2 by (simp only: g w st fst_conv)
  qed
qed

lemma sv39_not_ram_backed: "\<not> ram_backed (sv39_mem leaf) 0x40008000"
  by (simp add: ram_backed_def sv39_range[of _ leaf]) (simp add: sv39_mem_def)

lemma sv39_ram_root1: "load_u64 (sv39_ram leaf) 0x2008 = 0x10002001"
  by (simp add: sv39_ram_def load_u64_def store_u64_def)

lemma sv39_visits_device:
  "walk_visits (sv39_mem leaf) 0x40000000 3 0x80002000 1 0x40008000
     (TRACK_MEM (sv39_mem leaf) 0x80002008 64 0x10002001)"
proof -
  have v0: "walk_visits (sv39_mem leaf) 0x40000000 3 0x80002000 0 0x80002000 (sv39_mem leaf)"
    by (rule visit_root)
  have r0: "phys_read_u64 (sv39_mem leaf) (pte_slot 0x40000000 3 0 0x80002000)
             = (0x10002001, TRACK_MEM (sv39_mem leaf) 0x80002008 64 0x10002001)"
    by (simp add: pte_slot_def sv39_read[of _ leaf] sv39_ram_root1)
  show ?thesis
    using visit_next[OF v0 _ r0] by simp
qed

theorem pte_outside_ram_page_fault_witness:
  "fst (phys_read_u64 (sv39_mem 0) 0x40008000) = 0
   \<and> fst (get_phys_addr sv39_user (sv39_mem 0) 0x40000000 ACCESS_READ) = Inl (- 1)
   \<and> target_read_slow_exception (- 1) = CAUSE_LOAD_PAGE_FAULT"
  using pte_outside_ram_page_fault[of "sv39_mem 0" "0x40008000" PRV_U sv39_user ACCESS_READ
      "0x40000000" "- 1" 3 1 "0x40008000"]
    sv39_visits_device[of 0] sv39_not_ram_backed[of 0]
  by (simp add: sv39_user_fields pte_slot_def)

section \<open>The HTIF console\<close>

lemma ucast32_ne_console_cmd: "(ucast (val :: 32 word) :: 64 word) \<noteq> 0x0101000000000041"
proof
  assume e: "(ucast val :: 64 word) = 0x0101000000000041"
  have a: "unat val < 2 ^ 32"
    using unsigned_less[of val, where 'a = nat] by simp
  have "unat (ucast val :: 64 word) = take_bit 64 (unat val)"
    by (simp add: unsigned_ucast_eq)
  also have "\<dots> \<le> unat val"
    by (simp add: take_bit_eq_mod)
  finally have "unat (ucast val :: 64 word) < 2 ^ 32"
    using a by simp
  then show False
    by (simp add: e)
qed

text \<open>
  C8.  A 32-bit write to a \<open>tohost\<close> word (offset 0 or 4) after which the 64-bit
  \<open>tohost\<close> is \<open>0x0101000000000041\<close> appends the byte \<open>0x41\<close> to the console, sets
  \<open>tohost\<close> to 0 and sets \<open>fromhost\<close> to \<open>0x0101000000000000\<close>; nothing else
  changes.  The value that \<open>htif_write\<close> stores before it looks at the command is
  written out in the hypothesis, for each of the two offsets.
\<close>

theorem htif_console_putchar:
  assumes "offset = 0 \<and> (htif_tohost s AND ucast (NOT (0xffffffff :: 32 word))) OR ucast val
                          = 0x0101000000000041
           \<or> offset = 4 \<and> (htif_tohost s AND ucast (0xffffffff :: 32 word)) OR push_bit 32 (ucast val)
                          = 0x0101000000000041"
  shows "htif_write s offset val 2 =
           Inr (s\<lparr>console_out := console_out s @ [0x41], htif_tohost := 0,
                  htif_fromhost := 0x0101000000000000\<rparr>)"
  using assms
proof
  assume "offset = 0 \<and> (htif_tohost s AND ucast (NOT (0xffffffff :: 32 word))) OR ucast val
                          = 0x0101000000000041"
  then have "(ucast val :: 64 word) = 0x0101000000000041" by simp
  then show ?thesis using ucast32_ne_console_cmd[of val] by simp
next
  assume h: "offset = 4 \<and> (htif_tohost s AND ucast (0xffffffff :: 32 word)) OR push_bit 32 (ucast val)
                          = 0x0101000000000041"
  then have o: "offset = 4" by blast
  from h have x: "(htif_tohost s AND ucast (0xffffffff :: 32 word)) OR push_bit 32 (ucast val)
                          = 0x0101000000000041" by blast
  show ?thesis
    unfolding htif_write_def o x
    by (simp add: htif_handle_cmd_def)
qed

theorem htif_console_putchar_witness:
  "htif_write zero_machine 0 0x41 2 = Inr (zero_machine\<lparr>htif_tohost := 0x41\<rparr>)
   \<and> htif_write (zero_machine\<lparr>htif_tohost := 0x41\<rparr>) 4 0x01010000 2 =
       Inr (zero_machine\<lparr>console_out := [0x41], htif_tohost := 0, htif_fromhost := 0x0101000000000000\<rparr>)"
proof
  show "htif_write zero_machine 0 0x41 2 = Inr (zero_machine\<lparr>htif_tohost := 0x41\<rparr>)"
    by (simp add: htif_write_def htif_handle_cmd_def zero_machine_def)
  show "htif_write (zero_machine\<lparr>htif_tohost := 0x41\<rparr>) 4 0x01010000 2 =
       Inr (zero_machine\<lparr>console_out := [0x41], htif_tohost := 0, htif_fromhost := 0x0101000000000000\<rparr>)"
    using htif_console_putchar[of 4 "zero_machine\<lparr>htif_tohost := 0x41\<rparr>" "0x01010000"]
    by (simp add: zero_machine_def)
qed

section \<open>Pending interrupts\<close>

lemma ctz32_lowest:
  assumes "a \<noteq> 0"
  shows "ctz32 a < 32 \<and> bit a (ctz32 a) \<and> (\<forall>k<ctz32 a. \<not> bit a k)"
proof -
  from assms obtain i where i: "bit a i"
    by (auto simp add: bit_eq_iff)
  then have "i < 32"
    using bit_imp_le_length[of a i] by simp
  with i have "List.find (bit a) [0..<32] \<noteq> None"
    by (auto simp add: find_None_iff)
  then obtain j where j: "List.find (bit a) [0..<32] = Some j"
    by auto
  then have "j < 32 \<and> bit a j \<and> (\<forall>k<j. \<not> bit a k)"
    by (auto simp add: find_Some_iff)
  with j show ?thesis
    by (simp add: ctz32_def)
qed

lemma irq_cause_bits:
  "\<forall>n \<in> set [0..<32].
      ((of_nat n OR 0x80000000 :: 32 word) AND 0x80000000 \<noteq> 0)
    \<and> unat ((of_nat n OR 0x80000000 :: 32 word) AND 63) = n
    \<and> (ucast ((of_nat n OR 0x80000000 :: 32 word) AND 0x1f) :: 64 word) = of_nat n"
  by code_simp

lemma irq_cause:
  assumes "n < 32"
  shows "(of_nat n OR 0x80000000 :: 32 word) AND 0x80000000 \<noteq> 0"
    and "unat ((of_nat n OR 0x80000000 :: 32 word) AND 63) = n"
    and "(ucast ((of_nat n OR 0x80000000 :: 32 word) AND 0x1f) :: 64 word) = of_nat n"
  using assms irq_cause_bits by auto

lemma bit_drop_and1: "(drop_bit n (x :: 32 word) AND 1 \<noteq> 0) = bit x n"
  by (simp add: and_one_eq bit_iff_odd_drop_bit mod_2_eq_odd)


lemma raise_interrupt_none: "get_pending_irq_mask s = 0 \<Longrightarrow> raise_interrupt s = (0, s)"
  by (simp add: raise_interrupt_def)

lemma no_pending_mask: "mip s AND mie s = 0 \<Longrightarrow> get_pending_irq_mask s = 0"
  by (simp add: get_pending_irq_mask_def)

lemma raise_interrupt_some:
  "get_pending_irq_mask s \<noteq> 0 \<Longrightarrow>
   raise_interrupt s =
     (- 1, raise_exception2 s (of_nat (ctz32 (get_pending_irq_mask s)) OR CAUSE_INTERRUPT) 0)"
  by (simp add: raise_interrupt_def raise_exception_def Let_def)

lemma set_priv_fields:
  "priv (set_priv s q) = q" "scause (set_priv s q) = scause s" "mcause (set_priv s q) = mcause s"
  "sepc (set_priv s q) = sepc s" "mepc (set_priv s q) = mepc s"
  "stvec (set_priv s q) = stvec s" "mtvec (set_priv s q) = mtvec s"
  by (simp_all add: set_priv_def tlb_flush_all_def tlb_init_def Let_def)

lemma init_cur_xlen: "cur_xlen (riscv_cpu_init e) = 64"
  by (simp add: riscv_cpu_init_def tlb_init_def Let_def zero_state_def)

lemma init_mip_mie: "mip (riscv_cpu_init e) = 0" "mie (riscv_cpu_init e) = 0"
  by (simp_all add: riscv_cpu_init_def tlb_init_def Let_def zero_state_def)

lemma init_pc: "pc (riscv_cpu_init e) = 0x10040"
  by (simp add: riscv_cpu_init_def tlb_init_def Let_def zero_state_def)

lemma init_mideleg: "mideleg (riscv_cpu_init e) = 0"
  by (simp add: riscv_cpu_init_def tlb_init_def Let_def zero_state_def)

lemma and_bit_ne0: "(x AND 8 \<noteq> 0) = bit (x :: 64 word) 3" "(x AND 2 \<noteq> 0) = bit x (Suc 0)"
proof -
  have "(x AND push_bit 3 1 \<noteq> 0) = bit x 3"
    by (simp only: bit_iff_and_push_bit_not_eq_0)
  then show "(x AND 8 \<noteq> 0) = bit x 3" by simp
  have "(x AND push_bit (Suc 0) 1 \<noteq> 0) = bit x (Suc 0)"
    by (simp only: bit_iff_and_push_bit_not_eq_0)
  then show "(x AND 2 \<noteq> 0) = bit x (Suc 0)" by simp
qed

lemma mask_bits: "bit (get_pending_irq_mask s) k = irq_deliverable_spec s k"
proof (cases "mip s AND mie s = 0")
  case True
  then have "\<not> bit (mip s AND mie s) k" by simp
  then have "\<not> (bit (mip s) k \<and> bit (mie s) k)" by (simp add: bit_and_iff)
  then show ?thesis
    using True by (auto simp add: get_pending_irq_mask_def irq_deliverable_spec_def)
next
  case False
  have k: "bit (mip s) k \<Longrightarrow> k < 32"
    using bit_imp_le_length[of "mip s" k] by simp
  show ?thesis
    using False k
    by (auto simp add: get_pending_irq_mask_def irq_deliverable_spec_def Let_def
        bit_and_iff bit_or_iff bit_not_iff and_bit_ne0)
qed

lemma ctz32_least:
  assumes "bit a n" and "\<forall>k<n. \<not> bit a k"
  shows "a \<noteq> 0 \<and> ctz32 a = n"
proof -
  from assms(1) have nz: "a \<noteq> 0" by auto
  note low = ctz32_lowest[OF nz]
  have "\<not> ctz32 a < n" using low assms(2) by blast
  moreover have "\<not> n < ctz32 a" using low assms(1) by blast
  ultimately show ?thesis using nz by simp
qed

lemma raise_exception2_irq_deleg:
  assumes n: "n < 32" and p: "priv s \<le> PRV_S \<and> bit (mideleg s) n"
  shows "raise_exception2 s (of_nat n OR CAUSE_INTERRUPT) tval =
        (set_priv
           (s\<lparr>scause := of_nat n OR push_bit (unat (cur_xlen s) - 1) 1, sepc := pc s, stval := tval,
              mstatus := (((mstatus s AND NOT MSTATUS_SPIE) OR
                             push_bit MSTATUS_SPIE_SHIFT (if mstatus s AND MSTATUS_SIE \<noteq> 0 then 1 else 0))
                            AND NOT MSTATUS_SPP OR push_bit MSTATUS_SPP_SHIFT (ucast (priv s)))
                         AND NOT MSTATUS_SIE\<rparr>) PRV_S)
          \<lparr>pc := (if stvec s AND 1 \<noteq> 0
                  then stvec s - 1 + 4 * (of_nat n OR push_bit (unat (cur_xlen s) - 1) 1)
                  else stvec s)\<rparr>"
proof -
  from p have d: "(if priv s \<le> 1 then
               (if (of_nat n OR 0x80000000 :: 32 word) AND 0x80000000 \<noteq> 0
                then drop_bit (unat ((of_nat n OR 0x80000000 :: 32 word) AND 63)) (mideleg s) AND 1 \<noteq> 0
                else drop_bit (unat (of_nat n OR 0x80000000 :: 32 word)) (medeleg s) AND 1 \<noteq> 0)
             else False) = True"
    by (simp add: irq_cause[OF n] bit_drop_and1)
  show ?thesis
  proof (cases "stvec s AND 1 \<noteq> 0")
    case True
    show ?thesis
      unfolding raise_exception2_def Let_def d if_True
      using True
      by (simp add: irq_cause[OF n] set_priv_fields or.commute split del: if_split)
  next
    case False
    show ?thesis
      unfolding raise_exception2_def Let_def d if_True
      using False
      by (simp add: irq_cause[OF n] set_priv_fields or.commute split del: if_split)
  qed
qed

lemma raise_exception2_irq_machine:
  assumes n: "n < 32" and p: "\<not> (priv s \<le> PRV_S \<and> bit (mideleg s) n)"
  shows "raise_exception2 s (of_nat n OR CAUSE_INTERRUPT) tval =
        (set_priv
           (s\<lparr>mcause := of_nat n OR push_bit (unat (cur_xlen s) - 1) 1, mepc := pc s, mtval := tval,
              mstatus := (((mstatus s AND NOT MSTATUS_MPIE) OR
                             push_bit MSTATUS_MPIE_SHIFT (if mstatus s AND MSTATUS_MIE \<noteq> 0 then 1 else 0))
                            AND NOT MSTATUS_MPP OR push_bit MSTATUS_MPP_SHIFT (ucast (priv s)))
                         AND NOT MSTATUS_MIE\<rparr>) PRV_M)
          \<lparr>pc := (if mtvec s AND 1 \<noteq> 0
                  then mtvec s - 1 + 4 * (of_nat n OR push_bit (unat (cur_xlen s) - 1) 1)
                  else mtvec s)\<rparr>"
proof -
  from p have d: "(if priv s \<le> 1 then
               (if (of_nat n OR 0x80000000 :: 32 word) AND 0x80000000 \<noteq> 0
                then drop_bit (unat ((of_nat n OR 0x80000000 :: 32 word) AND 63)) (mideleg s) AND 1 \<noteq> 0
                else drop_bit (unat (of_nat n OR 0x80000000 :: 32 word)) (medeleg s) AND 1 \<noteq> 0)
             else False) = False"
    by (simp add: irq_cause[OF n] bit_drop_and1)
  show ?thesis
  proof (cases "mtvec s AND 1 \<noteq> 0")
    case True
    show ?thesis
      unfolding raise_exception2_def Let_def d if_False
      using True
      by (simp add: irq_cause[OF n] set_priv_fields or.commute split del: if_split)
  next
    case False
    show ?thesis
      unfolding raise_exception2_def Let_def d if_False
      using False
      by (simp add: irq_cause[OF n] set_priv_fields or.commute split del: if_split)
  qed
qed


lemma set_priv_more_fields:
  "mstatus (set_priv s q) = mstatus s" "stval (set_priv s q) = stval s" "mtval (set_priv s q) = mtval s"
  "pc (set_priv s q) = pc s"
  by (simp_all add: set_priv_def tlb_flush_all_def tlb_init_def Let_def)

text \<open>
  C3.  When \<open>mip & mie\<close> is 0, or the mask of \<open>get_pending_irq_mask\<close> is 0, or no
  interrupt number can be taken by the spec's privilege gating, \<open>raise_interrupt\<close>
  returns 0 and the state is unchanged.  The bits of the mask are the numbers that can be
  taken by the spec's gating.  When \<open>n\<close> is the lowest number that can be taken (and
  \<open>cur_xlen\<close> is at most 64, as the source says of it, so that the shift in
  \<open>raise_exception2\<close> is defined), \<open>raise_interrupt\<close> returns -1 and takes the trap
  with cause \<open>n\<close> and the interrupt bit (bit \<open>cur_xlen - 1\<close>): to S when the privilege
  is at most S and \<open>mideleg\<close> delegates \<open>n\<close>, to M otherwise.  The whole state after
  the trap is given: \<open>xcause\<close>, \<open>xepc\<close> = the old \<open>pc\<close>, \<open>xtval\<close> = 0, in
  \<open>mstatus\<close> \<open>xPIE\<close> = the old \<open>xIE\<close>, \<open>xPP\<close> = the old privilege and \<open>xIE\<close> = 0,
  the new privilege (through \<open>set_priv\<close>), and \<open>pc\<close> = \<open>xtvec\<close>, or
  \<open>xtvec - 1 + 4 * xcause\<close> when bit 0 of \<open>xtvec\<close> is set.
\<close>

theorem raise_interrupt_lowest_pending:
  "(mip s AND mie s = 0 \<longrightarrow> raise_interrupt s = (0, s))
   \<and> (\<forall>k. bit (get_pending_irq_mask s) k = irq_deliverable_spec s k)
   \<and> (get_pending_irq_mask s = 0 \<longrightarrow> raise_interrupt s = (0, s))
   \<and> ((\<forall>k. \<not> irq_deliverable_spec s k) \<longrightarrow> raise_interrupt s = (0, s))
   \<and> (\<forall>n. irq_deliverable_spec s n \<and> (\<forall>k<n. \<not> irq_deliverable_spec s k)
            \<and> 0 < cur_xlen s \<and> cur_xlen s \<le> 64 \<longrightarrow>
         (let c = of_nat n OR push_bit (unat (cur_xlen s) - 1) 1;
              t = snd (raise_interrupt s)
          in n < 32 \<and> ctz32 (get_pending_irq_mask s) = n \<and> fst (raise_interrupt s) = - 1
           \<and> (if priv s \<le> PRV_S \<and> bit (mideleg s) n then
                (let ms = (((mstatus s AND NOT MSTATUS_SPIE) OR
                              push_bit MSTATUS_SPIE_SHIFT (if mstatus s AND MSTATUS_SIE \<noteq> 0 then 1 else 0))
                             AND NOT MSTATUS_SPP OR push_bit MSTATUS_SPP_SHIFT (ucast (priv s)))
                          AND NOT MSTATUS_SIE;
                     npc = (if stvec s AND 1 \<noteq> 0 then stvec s - 1 + 4 * c else stvec s)
                 in t = (set_priv (s\<lparr>scause := c, sepc := pc s, stval := 0, mstatus := ms\<rparr>) PRV_S)
                          \<lparr>pc := npc\<rparr>
                  \<and> priv t = PRV_S \<and> scause t = c \<and> sepc t = pc s \<and> stval t = 0
                  \<and> mstatus t = ms \<and> pc t = npc)
              else
                (let ms = (((mstatus s AND NOT MSTATUS_MPIE) OR
                              push_bit MSTATUS_MPIE_SHIFT (if mstatus s AND MSTATUS_MIE \<noteq> 0 then 1 else 0))
                             AND NOT MSTATUS_MPP OR push_bit MSTATUS_MPP_SHIFT (ucast (priv s)))
                          AND NOT MSTATUS_MIE;
                     npc = (if mtvec s AND 1 \<noteq> 0 then mtvec s - 1 + 4 * c else mtvec s)
                 in t = (set_priv (s\<lparr>mcause := c, mepc := pc s, mtval := 0, mstatus := ms\<rparr>) PRV_M)
                          \<lparr>pc := npc\<rparr>
                  \<and> priv t = PRV_M \<and> mcause t = c \<and> mepc t = pc s \<and> mtval t = 0
                  \<and> mstatus t = ms \<and> pc t = npc))))"
proof (intro conjI allI impI)
  show "raise_interrupt s = (0, s)" if "mip s AND mie s = 0"
    using that by (simp add: raise_interrupt_none no_pending_mask)
  show "bit (get_pending_irq_mask s) k = irq_deliverable_spec s k" for k
    by (rule mask_bits)
  show "raise_interrupt s = (0, s)" if "get_pending_irq_mask s = 0"
    using that by (rule raise_interrupt_none)
  show "raise_interrupt s = (0, s)" if "\<forall>k. \<not> irq_deliverable_spec s k"
  proof -
    from that have "get_pending_irq_mask s = 0"
      by (simp add: bit_eq_iff mask_bits)
    then show ?thesis by (rule raise_interrupt_none)
  qed
next
  fix n
  assume h: "irq_deliverable_spec s n \<and> (\<forall>k<n. \<not> irq_deliverable_spec s k)
            \<and> 0 < cur_xlen s \<and> cur_xlen s \<le> 64"
  then have b: "bit (get_pending_irq_mask s) n" and l: "\<forall>k<n. \<not> bit (get_pending_irq_mask s) k"
    by (simp_all add: mask_bits)
  from ctz32_least[OF b l] have nz: "get_pending_irq_mask s \<noteq> 0"
    and c: "ctz32 (get_pending_irq_mask s) = n"
    by blast+
  from ctz32_lowest[OF nz] c have n: "n < 32" by simp
  have e: "raise_interrupt s = (- 1, raise_exception2 s (of_nat n OR CAUSE_INTERRUPT) 0)"
    using raise_interrupt_some[OF nz] by (simp only: c)
  show "let c = of_nat n OR push_bit (unat (cur_xlen s) - 1) 1;
              t = snd (raise_interrupt s)
          in n < 32 \<and> ctz32 (get_pending_irq_mask s) = n \<and> fst (raise_interrupt s) = - 1
           \<and> (if priv s \<le> PRV_S \<and> bit (mideleg s) n then
                (let ms = (((mstatus s AND NOT MSTATUS_SPIE) OR
                              push_bit MSTATUS_SPIE_SHIFT (if mstatus s AND MSTATUS_SIE \<noteq> 0 then 1 else 0))
                             AND NOT MSTATUS_SPP OR push_bit MSTATUS_SPP_SHIFT (ucast (priv s)))
                          AND NOT MSTATUS_SIE;
                     npc = (if stvec s AND 1 \<noteq> 0 then stvec s - 1 + 4 * c else stvec s)
                 in t = (set_priv (s\<lparr>scause := c, sepc := pc s, stval := 0, mstatus := ms\<rparr>) PRV_S)
                          \<lparr>pc := npc\<rparr>
                  \<and> priv t = PRV_S \<and> scause t = c \<and> sepc t = pc s \<and> stval t = 0
                  \<and> mstatus t = ms \<and> pc t = npc)
              else
                (let ms = (((mstatus s AND NOT MSTATUS_MPIE) OR
                              push_bit MSTATUS_MPIE_SHIFT (if mstatus s AND MSTATUS_MIE \<noteq> 0 then 1 else 0))
                             AND NOT MSTATUS_MPP OR push_bit MSTATUS_MPP_SHIFT (ucast (priv s)))
                          AND NOT MSTATUS_MIE;
                     npc = (if mtvec s AND 1 \<noteq> 0 then mtvec s - 1 + 4 * c else mtvec s)
                 in t = (set_priv (s\<lparr>mcause := c, mepc := pc s, mtval := 0, mstatus := ms\<rparr>) PRV_M)
                          \<lparr>pc := npc\<rparr>
                  \<and> priv t = PRV_M \<and> mcause t = c \<and> mepc t = pc s \<and> mtval t = 0
                  \<and> mstatus t = ms \<and> pc t = npc))"
  proof (cases "priv s \<le> PRV_S \<and> bit (mideleg s) n")
    case True
    have q: "(priv s \<le> PRV_S \<and> bit (mideleg s) n) = True" using True by simp
    show ?thesis
      unfolding Let_def e snd_conv fst_conv q if_True raise_exception2_irq_deleg[OF n True]
      using n c by (simp add: set_priv_fields set_priv_more_fields split del: if_split)
  next
    case False
    have q: "(priv s \<le> PRV_S \<and> bit (mideleg s) n) = False" using False by simp
    show ?thesis
      unfolding Let_def e snd_conv fst_conv q if_False raise_exception2_irq_machine[OF n False]
      using n c by (simp add: set_priv_fields set_priv_more_fields split del: if_split)
  qed
qed

lemma m_mode_masked_mask: "get_pending_irq_mask m_mode_masked = 0"
  by (simp add: get_pending_irq_mask_def m_mode_masked_def init_priv init_mideleg init_mstatus)

lemma s_mode_pending_mask:
  "get_pending_irq_mask (s_mode_pending 0xA00000000) = 0x80"
  "get_pending_irq_mask (s_mode_pending 0xA00000002) = 0xA2"
  by (simp_all add: get_pending_irq_mask_def s_mode_pending_def)

lemma ctz32_values: "ctz32 0x80 = 7" "ctz32 0xA2 = 1"
  by code_simp+


lemma s_mode_pending_fields:
  "priv (s_mode_pending ms) = PRV_S" "pc (s_mode_pending ms) = 0x10040"
  "mideleg (s_mode_pending ms) = 0x222" "mstatus (s_mode_pending ms) = ms"
  "mtvec (s_mode_pending ms) = 0x80000100" "stvec (s_mode_pending ms) = 0x80000201"
  "cur_xlen (s_mode_pending ms) = 64"
  by (simp_all add: s_mode_pending_def init_pc init_cur_xlen)

lemma s_mode_pending_least:
  "irq_deliverable_spec (s_mode_pending 0xA00000000) 7
   \<and> (\<forall>k<7. \<not> irq_deliverable_spec (s_mode_pending 0xA00000000) k)"
  "irq_deliverable_spec (s_mode_pending 0xA00000002) 1
   \<and> (\<forall>k<1. \<not> irq_deliverable_spec (s_mode_pending 0xA00000002) k)"
  using ctz32_lowest[of "0x80"] ctz32_lowest[of "0xA2"]
  by (simp_all add: mask_bits[symmetric] s_mode_pending_mask ctz32_values)

theorem raise_interrupt_lowest_pending_witness:
  "raise_interrupt (riscv_cpu_init None) = (0, riscv_cpu_init None)
   \<and> raise_interrupt m_mode_masked = (0, m_mode_masked)
   \<and> fst (raise_interrupt (s_mode_pending 0xA00000000)) = - 1
   \<and> mcause (snd (raise_interrupt (s_mode_pending 0xA00000000))) = 0x8000000000000007
   \<and> mepc (snd (raise_interrupt (s_mode_pending 0xA00000000))) = 0x10040
   \<and> priv (snd (raise_interrupt (s_mode_pending 0xA00000000))) = PRV_M
   \<and> mstatus (snd (raise_interrupt (s_mode_pending 0xA00000000))) = 0xA00000800
   \<and> pc (snd (raise_interrupt (s_mode_pending 0xA00000000))) = 0x80000100
   \<and> fst (raise_interrupt (s_mode_pending 0xA00000002)) = - 1
   \<and> scause (snd (raise_interrupt (s_mode_pending 0xA00000002))) = 0x8000000000000001
   \<and> sepc (snd (raise_interrupt (s_mode_pending 0xA00000002))) = 0x10040
   \<and> priv (snd (raise_interrupt (s_mode_pending 0xA00000002))) = PRV_S
   \<and> mstatus (snd (raise_interrupt (s_mode_pending 0xA00000002))) = 0xA00000120
   \<and> pc (snd (raise_interrupt (s_mode_pending 0xA00000002))) = 0x80000204"
proof -
  have z: "mip (riscv_cpu_init None) AND mie (riscv_cpu_init None) = 0"
    by (simp add: init_mip_mie)
  from raise_interrupt_lowest_pending[of "riscv_cpu_init None"] z
  have w1: "raise_interrupt (riscv_cpu_init None) = (0, riscv_cpu_init None)"
    by blast
  have g: "\<forall>k. \<not> irq_deliverable_spec m_mode_masked k"
    by (simp add: mask_bits[symmetric] m_mode_masked_mask)
  from raise_interrupt_lowest_pending[of m_mode_masked] g
  have w2: "raise_interrupt m_mode_masked = (0, m_mode_masked)"
    by blast
  have x: "0 < cur_xlen (s_mode_pending ms) \<and> cur_xlen (s_mode_pending ms) \<le> 64" for ms
    by (simp add: s_mode_pending_fields)
  have dm: "(priv (s_mode_pending 0xA00000000) \<le> 1 \<and> bit (mideleg (s_mode_pending 0xA00000000)) 7) = False"
    by (simp add: s_mode_pending_fields bit_numeral_rec)
  have ds: "(priv (s_mode_pending 0xA00000002) \<le> 1 \<and> bit (mideleg (s_mode_pending 0xA00000002)) 1) = True"
    by (simp add: s_mode_pending_fields bit_numeral_rec)
  from raise_interrupt_lowest_pending[of "s_mode_pending 0xA00000000"] s_mode_pending_least(1) x
  have "let c = of_nat 7 OR push_bit (unat (cur_xlen (s_mode_pending 0xA00000000)) - 1) 1;
            t = snd (raise_interrupt (s_mode_pending 0xA00000000))
        in 7 < (32 :: nat) \<and> ctz32 (get_pending_irq_mask (s_mode_pending 0xA00000000)) = 7
         \<and> fst (raise_interrupt (s_mode_pending 0xA00000000)) = - 1
         \<and> (if priv (s_mode_pending 0xA00000000) \<le> 1 \<and> bit (mideleg (s_mode_pending 0xA00000000)) 7 then
              (let ms = (((mstatus (s_mode_pending 0xA00000000) AND NOT MSTATUS_SPIE) OR
                            push_bit MSTATUS_SPIE_SHIFT (if mstatus (s_mode_pending 0xA00000000) AND MSTATUS_SIE \<noteq> 0 then 1 else 0))
                           AND NOT MSTATUS_SPP OR push_bit MSTATUS_SPP_SHIFT (ucast (priv (s_mode_pending 0xA00000000))))
                        AND NOT MSTATUS_SIE;
                   npc = (if stvec (s_mode_pending 0xA00000000) AND 1 \<noteq> 0 then stvec (s_mode_pending 0xA00000000) - 1 + 4 * c else stvec (s_mode_pending 0xA00000000))
               in t = (set_priv ((s_mode_pending 0xA00000000)\<lparr>scause := c, sepc := pc (s_mode_pending 0xA00000000), stval := 0, mstatus := ms\<rparr>) PRV_S)
                        \<lparr>pc := npc\<rparr>
                \<and> priv t = PRV_S \<and> scause t = c \<and> sepc t = pc (s_mode_pending 0xA00000000) \<and> stval t = 0
                \<and> mstatus t = ms \<and> pc t = npc)
            else
              (let ms = (((mstatus (s_mode_pending 0xA00000000) AND NOT MSTATUS_MPIE) OR
                            push_bit MSTATUS_MPIE_SHIFT (if mstatus (s_mode_pending 0xA00000000) AND MSTATUS_MIE \<noteq> 0 then 1 else 0))
                           AND NOT MSTATUS_MPP OR push_bit MSTATUS_MPP_SHIFT (ucast (priv (s_mode_pending 0xA00000000))))
                        AND NOT MSTATUS_MIE;
                   npc = (if mtvec (s_mode_pending 0xA00000000) AND 1 \<noteq> 0 then mtvec (s_mode_pending 0xA00000000) - 1 + 4 * c else mtvec (s_mode_pending 0xA00000000))
               in t = (set_priv ((s_mode_pending 0xA00000000)\<lparr>mcause := c, mepc := pc (s_mode_pending 0xA00000000), mtval := 0, mstatus := ms\<rparr>) PRV_M)
                        \<lparr>pc := npc\<rparr>
                \<and> priv t = PRV_M \<and> mcause t = c \<and> mepc t = pc (s_mode_pending 0xA00000000) \<and> mtval t = 0
                \<and> mstatus t = ms \<and> pc t = npc))"
    by blast
  then have w3: "fst (raise_interrupt (s_mode_pending 0xA00000000)) = - 1
   \<and> mcause (snd (raise_interrupt (s_mode_pending 0xA00000000))) = 0x8000000000000007
   \<and> mepc (snd (raise_interrupt (s_mode_pending 0xA00000000))) = 0x10040
   \<and> priv (snd (raise_interrupt (s_mode_pending 0xA00000000))) = PRV_M
   \<and> mstatus (snd (raise_interrupt (s_mode_pending 0xA00000000))) = 0xA00000800
   \<and> pc (snd (raise_interrupt (s_mode_pending 0xA00000000))) = 0x80000100"
    unfolding Let_def dm if_False
    by (simp add: s_mode_pending_fields set_priv_fields set_priv_more_fields)
  from raise_interrupt_lowest_pending[of "s_mode_pending 0xA00000002"] s_mode_pending_least(2) x
  have "let c = of_nat 1 OR push_bit (unat (cur_xlen (s_mode_pending 0xA00000002)) - 1) 1;
            t = snd (raise_interrupt (s_mode_pending 0xA00000002))
        in 1 < (32 :: nat) \<and> ctz32 (get_pending_irq_mask (s_mode_pending 0xA00000002)) = 1
         \<and> fst (raise_interrupt (s_mode_pending 0xA00000002)) = - 1
         \<and> (if priv (s_mode_pending 0xA00000002) \<le> 1 \<and> bit (mideleg (s_mode_pending 0xA00000002)) 1 then
              (let ms = (((mstatus (s_mode_pending 0xA00000002) AND NOT MSTATUS_SPIE) OR
                            push_bit MSTATUS_SPIE_SHIFT (if mstatus (s_mode_pending 0xA00000002) AND MSTATUS_SIE \<noteq> 0 then 1 else 0))
                           AND NOT MSTATUS_SPP OR push_bit MSTATUS_SPP_SHIFT (ucast (priv (s_mode_pending 0xA00000002))))
                        AND NOT MSTATUS_SIE;
                   npc = (if stvec (s_mode_pending 0xA00000002) AND 1 \<noteq> 0 then stvec (s_mode_pending 0xA00000002) - 1 + 4 * c else stvec (s_mode_pending 0xA00000002))
               in t = (set_priv ((s_mode_pending 0xA00000002)\<lparr>scause := c, sepc := pc (s_mode_pending 0xA00000002), stval := 0, mstatus := ms\<rparr>) PRV_S)
                        \<lparr>pc := npc\<rparr>
                \<and> priv t = PRV_S \<and> scause t = c \<and> sepc t = pc (s_mode_pending 0xA00000002) \<and> stval t = 0
                \<and> mstatus t = ms \<and> pc t = npc)
            else
              (let ms = (((mstatus (s_mode_pending 0xA00000002) AND NOT MSTATUS_MPIE) OR
                            push_bit MSTATUS_MPIE_SHIFT (if mstatus (s_mode_pending 0xA00000002) AND MSTATUS_MIE \<noteq> 0 then 1 else 0))
                           AND NOT MSTATUS_MPP OR push_bit MSTATUS_MPP_SHIFT (ucast (priv (s_mode_pending 0xA00000002))))
                        AND NOT MSTATUS_MIE;
                   npc = (if mtvec (s_mode_pending 0xA00000002) AND 1 \<noteq> 0 then mtvec (s_mode_pending 0xA00000002) - 1 + 4 * c else mtvec (s_mode_pending 0xA00000002))
               in t = (set_priv ((s_mode_pending 0xA00000002)\<lparr>mcause := c, mepc := pc (s_mode_pending 0xA00000002), mtval := 0, mstatus := ms\<rparr>) PRV_M)
                        \<lparr>pc := npc\<rparr>
                \<and> priv t = PRV_M \<and> mcause t = c \<and> mepc t = pc (s_mode_pending 0xA00000002) \<and> mtval t = 0
                \<and> mstatus t = ms \<and> pc t = npc))"
    by blast
  then have w4: "fst (raise_interrupt (s_mode_pending 0xA00000002)) = - 1
   \<and> scause (snd (raise_interrupt (s_mode_pending 0xA00000002))) = 0x8000000000000001
   \<and> sepc (snd (raise_interrupt (s_mode_pending 0xA00000002))) = 0x10040
   \<and> priv (snd (raise_interrupt (s_mode_pending 0xA00000002))) = PRV_S
   \<and> mstatus (snd (raise_interrupt (s_mode_pending 0xA00000002))) = 0xA00000120
   \<and> pc (snd (raise_interrupt (s_mode_pending 0xA00000002))) = 0x80000204"
    unfolding Let_def ds if_True
    by (simp add: s_mode_pending_fields set_priv_fields set_priv_more_fields)
  show ?thesis
    using w1 w2 w3 w4 by (simp only: simp_thms)
qed

section \<open>The data pool of the snapshot boot ROM\<close>

lemma put_code_pos [simp]:
  "code_pos (put_code b w) = code_pos b + 1" "data_pos (put_code b w) = data_pos b"
  "length (rom (put_code b w)) = length (rom b)"
  by (simp_all add: put_code_def)

lemma put_data_pos [simp]:
  "code_pos (put_data b w) = code_pos b" "data_pos (put_data b w) = data_pos b + 1"
  "length (rom (put_data b w)) = length (rom b)"
  by (simp_all add: put_data_def)

lemma put_code_nth: "k \<noteq> unat (code_pos b) \<Longrightarrow> rom (put_code b w) ! k = rom b ! k"
  by (simp add: put_code_def)

lemma put_data_nth: "k \<noteq> unat (data_pos b) \<Longrightarrow> rom (put_data b w) ! k = rom b ! k"
  by (simp add: put_data_def)

lemma csr12_pos [simp]:
  "code_pos (create_csr12_recovery b c v) = code_pos b + 2"
  "data_pos (create_csr12_recovery b c v) = data_pos b"
  "length (rom (create_csr12_recovery b c v)) = length (rom b)"
  by (simp_all add: create_csr12_recovery_def)

lemma csr12_nth:
  "k \<noteq> unat (code_pos b) \<Longrightarrow> k \<noteq> unat (code_pos b + 1) \<Longrightarrow>
   rom (create_csr12_recovery b c v) ! k = rom b ! k"
  by (simp add: create_csr12_recovery_def put_code_nth)

lemma csr64_pos [simp]:
  "code_pos (create_csr64_recovery b c v) = code_pos b + 4"
  "data_pos (create_csr64_recovery b c v) = data_pos b + 2"
  "length (rom (create_csr64_recovery b c v)) = length (rom b)"
  by (simp_all add: create_csr64_recovery_def Let_def)

lemma csr64_nth:
  "k \<noteq> unat (code_pos b) \<Longrightarrow> k \<noteq> unat (code_pos b + 1) \<Longrightarrow> k \<noteq> unat (code_pos b + 1 + 1) \<Longrightarrow>
   k \<noteq> unat (code_pos b + 1 + 1 + 1) \<Longrightarrow> k \<noteq> unat (data_pos b) \<Longrightarrow> k \<noteq> unat (data_pos b + 1) \<Longrightarrow>
   rom (create_csr64_recovery b c v) ! k = rom b ! k"
  by (simp add: create_csr64_recovery_def Let_def put_code_nth put_data_nth)

lemma reg_pos [simp]:
  "code_pos (create_reg_recovery b r v) = code_pos b + 3"
  "data_pos (create_reg_recovery b r v) = data_pos b + 2"
  "length (rom (create_reg_recovery b r v)) = length (rom b)"
  by (simp_all add: create_reg_recovery_def Let_def)

lemma reg_nth:
  "k \<noteq> unat (code_pos b) \<Longrightarrow> k \<noteq> unat (code_pos b + 1) \<Longrightarrow> k \<noteq> unat (code_pos b + 1 + 1) \<Longrightarrow>
   k \<noteq> unat (data_pos b) \<Longrightarrow> k \<noteq> unat (data_pos b + 1) \<Longrightarrow>
   rom (create_reg_recovery b r v) ! k = rom b ! k"
  by (simp add: create_reg_recovery_def Let_def put_code_nth put_data_nth)

lemma io64_pos [simp]:
  "code_pos (create_io64_recovery b a v) = code_pos b + 7"
  "data_pos (create_io64_recovery b a v) = data_pos b + 4"
  "length (rom (create_io64_recovery b a v)) = length (rom b)"
  by (simp_all add: create_io64_recovery_def Let_def)

lemma io64_nth:
  "k \<noteq> unat (code_pos b) \<Longrightarrow> k \<noteq> unat (code_pos b + 1) \<Longrightarrow> k \<noteq> unat (code_pos b + 1 + 1) \<Longrightarrow>
   k \<noteq> unat (code_pos b + 1 + 1 + 1) \<Longrightarrow> k \<noteq> unat (code_pos b + 1 + 1 + 1 + 1) \<Longrightarrow> k \<noteq> unat (code_pos b + 1 + 1 + 1 + 1 + 1) \<Longrightarrow>
   k \<noteq> unat (code_pos b + 1 + 1 + 1 + 1 + 1 + 1) \<Longrightarrow>
   k \<noteq> unat (data_pos b) \<Longrightarrow> k \<noteq> unat (data_pos b + 1) \<Longrightarrow> k \<noteq> unat (data_pos b + 1 + 1) \<Longrightarrow>
   k \<noteq> unat (data_pos b + 1 + 1 + 1) \<Longrightarrow>
   rom (create_io64_recovery b a v) ! k = rom b ! k"
  by (simp add: create_io64_recovery_def Let_def put_code_nth put_data_nth)

lemma hpm_pos [simp]:
  "code_pos (hpm_recovery s i b) = code_pos b + 6"
  "data_pos (hpm_recovery s i b) = data_pos b + 2"
  "length (rom (hpm_recovery s i b)) = length (rom b)"
  by (simp_all add: hpm_recovery_def)

lemma hpm_nth:
  "k \<noteq> unat (code_pos b) \<Longrightarrow> k \<noteq> unat (code_pos b + 1) \<Longrightarrow> k \<noteq> unat (code_pos b + 1 + 1) \<Longrightarrow>
   k \<noteq> unat (code_pos b + 1 + 1 + 1) \<Longrightarrow> k \<noteq> unat (code_pos b + 1 + 1 + 1 + 1) \<Longrightarrow> k \<noteq> unat (code_pos b + 1 + 1 + 1 + 1 + 1) \<Longrightarrow>
   k \<noteq> unat (data_pos b) \<Longrightarrow> k \<noteq> unat (data_pos b + 1) \<Longrightarrow>
   rom (hpm_recovery s i b) ! k = rom b ! k"
  by (simp add: hpm_recovery_def create_csr64_recovery_def create_csr12_recovery_def Let_def put_code_nth put_data_nth)

lemma upt_1_3: "[Suc 0..<3] = [Suc 0, 2]"
  by (simp add: upt_conv_Cons)

lemma boot_rom_rest_pos:
  "code_pos (boot_rom_rest s m b) = code_pos b + 360"
  "data_pos (boot_rom_rest s m b) = data_pos b + 164"
  "length (rom (boot_rom_rest s m b)) = length (rom b)"
  by (simp_all add: boot_rom_rest_def Let_def upt_1_3)


lemma boot_rom_rest_data_frame:
  assumes "code_pos b = 132" and "data_pos b = 582" and "492 \<le> k" and "k < 582"
  shows "rom (boot_rom_rest s m b) ! k = rom b ! k"
  using assms(3,4)
  by (simp add: boot_rom_rest_def Let_def upt_1_3 assms(1,2)
      put_code_nth csr12_nth csr64_nth reg_nth io64_nth hpm_nth)

lemma boot_rom_rest_code_frame:
  assumes "code_pos b = 132" and "data_pos b = 582" and "k < 132"
  shows "rom (boot_rom_rest s m b) ! k = rom b ! k"
  using assms(3)
  by (simp add: boot_rom_rest_def Let_def upt_1_3 assms(1,2)
      put_code_nth csr12_nth csr64_nth reg_nth io64_nth hpm_nth)

lemma unat_of_nat32: "x < 2 ^ 32 \<Longrightarrow> unat (of_nat x :: 32 word) = x"
  by (simp add: unat_of_nat)

lemma fp_step:
  assumes c: "code_pos X = of_nat c" and d: "data_pos X = of_nat d"
    and cd: "c + 3 \<le> d" and dl: "d + 2 \<le> length (rom X)" and l: "length (rom X) < 2 ^ 32"
  shows "code_pos (fp_reg_recovery s n X) = of_nat (c + 3)"
    and "data_pos (fp_reg_recovery s n X) = of_nat (d + 2)"
    and "length (rom (fp_reg_recovery s n X)) = length (rom X)"
    and "rom (fp_reg_recovery s n X) ! d = ucast (fp_reg s ! n)"
    and "rom (fp_reg_recovery s n X) ! (d + 1) = ucast (drop_bit 32 (reg s ! n))"
    and "k < c \<or> (c + 3 \<le> k \<and> k < d) \<or> d + 2 \<le> k \<Longrightarrow>
           rom (fp_reg_recovery s n X) ! k = rom X ! k"
proof -
  have u: "unat (of_nat c :: 32 word) = c" "unat (of_nat c + 1 :: 32 word) = c + 1"
    "unat (of_nat c + 1 + 1 :: 32 word) = c + 2" "unat (2 + of_nat c :: 32 word) = c + 2"
    "unat (of_nat d :: 32 word) = d" "unat (of_nat d + 1 :: 32 word) = d + 1"
    using cd dl l unat_of_nat32[of c] unat_of_nat32[of "c + 1"] unat_of_nat32[of "c + 2"]
      unat_of_nat32[of d] unat_of_nat32[of "d + 1"]
    by (simp_all add: add.commute)
  show "code_pos (fp_reg_recovery s n X) = of_nat (c + 3)"
    by (simp add: fp_reg_recovery_def Let_def c)
  show "data_pos (fp_reg_recovery s n X) = of_nat (d + 2)"
    by (simp add: fp_reg_recovery_def Let_def d)
  show "length (rom (fp_reg_recovery s n X)) = length (rom X)"
    by (simp add: fp_reg_recovery_def Let_def)
  show "rom (fp_reg_recovery s n X) ! d = ucast (fp_reg s ! n)"
    using cd dl by (simp add: fp_reg_recovery_def Let_def put_code_def put_data_def c d u)
  show "rom (fp_reg_recovery s n X) ! (d + 1) = ucast (drop_bit 32 (reg s ! n))"
    using cd dl by (simp add: fp_reg_recovery_def Let_def put_code_def put_data_def c d u)
  show "rom (fp_reg_recovery s n X) ! k = rom X ! k"
    if "k < c \<or> (c + 3 \<le> k \<and> k < d) \<or> d + 2 \<le> k"
    using that cd dl by (auto simp add: fp_reg_recovery_def Let_def put_code_def put_data_def c d u)
qed


lemma fp_loop:
  assumes c: "code_pos b = of_nat c" and d: "data_pos b = of_nat d"
    and cd: "c + 3 * n \<le> d" and dl: "d + 2 * n \<le> length (rom b)" and l: "length (rom b) < 2 ^ 32"
  shows "code_pos (fold (fp_reg_recovery s) [0..<n] b) = of_nat (c + 3 * n)
       \<and> data_pos (fold (fp_reg_recovery s) [0..<n] b) = of_nat (d + 2 * n)
       \<and> length (rom (fold (fp_reg_recovery s) [0..<n] b)) = length (rom b)
       \<and> (\<forall>i<n. rom (fold (fp_reg_recovery s) [0..<n] b) ! (d + 2 * i) = ucast (fp_reg s ! i)
               \<and> rom (fold (fp_reg_recovery s) [0..<n] b) ! (d + 2 * i + 1) = ucast (drop_bit 32 (reg s ! i)))
       \<and> (\<forall>k. k < c \<or> (c + 3 * n \<le> k \<and> k < d) \<or> d + 2 * n \<le> k \<longrightarrow>
               rom (fold (fp_reg_recovery s) [0..<n] b) ! k = rom b ! k)"
  using cd dl
proof (induction n)
  case 0
  show ?case by (simp add: c d)
next
  case (Suc n)
  let ?X = "fold (fp_reg_recovery s) [0..<n] b"
  from Suc.prems have p: "c + 3 * n \<le> d" "d + 2 * n \<le> length (rom b)" by simp_all
  note ih = Suc.IH[OF p]
  from ih have xc: "code_pos ?X = of_nat (c + 3 * n)" by blast
  from ih have xd: "data_pos ?X = of_nat (d + 2 * n)" by blast
  from ih have xl: "length (rom ?X) = length (rom b)" by blast
  from ih have xi: "\<And>i. i < n \<Longrightarrow> rom ?X ! (d + 2 * i) = ucast (fp_reg s ! i)
               \<and> rom ?X ! (d + 2 * i + 1) = ucast (drop_bit 32 (reg s ! i))" by blast
  from ih have xk: "\<And>k. k < c \<or> (c + 3 * n \<le> k \<and> k < d) \<or> d + 2 * n \<le> k \<Longrightarrow> rom ?X ! k = rom b ! k"
    by blast
  have q1: "c + 3 * n + 3 \<le> d + 2 * n" using Suc.prems by simp
  have q2: "d + 2 * n + 2 \<le> length (rom ?X)" using Suc.prems xl by simp
  have q3: "length (rom ?X) < 2 ^ 32" using l xl by simp
  note st = fp_step[OF xc xd q1 q2 q3, where s = s and n = n]
  have f: "fold (fp_reg_recovery s) [0..<Suc n] b = fp_reg_recovery s n ?X"
    by simp
  show ?case
    unfolding f
  proof (intro conjI allI impI)
    show "code_pos (fp_reg_recovery s n ?X) = of_nat (c + 3 * Suc n)"
      using st(1) by (simp add: add.commute add.left_commute)
    show "data_pos (fp_reg_recovery s n ?X) = of_nat (d + 2 * Suc n)"
      using st(2) by (simp add: add.commute add.left_commute)
    show "length (rom (fp_reg_recovery s n ?X)) = length (rom b)"
      using st(3) xl by simp
  next
    fix i assume i: "i < Suc n"
    show "rom (fp_reg_recovery s n ?X) ! (d + 2 * i) = ucast (fp_reg s ! i)"
    proof (cases "i = n")
      case True
      then show ?thesis using st(4) by simp
    next
      case False
      with i have "i < n" by simp
      then have "rom (fp_reg_recovery s n ?X) ! (d + 2 * i) = rom ?X ! (d + 2 * i)"
        using Suc.prems(1) by (intro st(6)) simp
      then show ?thesis using xi[OF \<open>i < n\<close>] by simp
    qed
    show "rom (fp_reg_recovery s n ?X) ! (d + 2 * i + 1) = ucast (drop_bit 32 (reg s ! i))"
    proof (cases "i = n")
      case True
      then show ?thesis using st(5) by simp
    next
      case False
      with i have "i < n" by simp
      then have "rom (fp_reg_recovery s n ?X) ! (d + 2 * i + 1) = rom ?X ! (d + 2 * i + 1)"
        using Suc.prems(1) by (intro st(6)) simp
      then show ?thesis using xi[OF \<open>i < n\<close>] by simp
    qed
  next
    fix k assume k: "k < c \<or> (c + 3 * Suc n \<le> k \<and> k < d) \<or> d + 2 * Suc n \<le> k"
    then have "rom (fp_reg_recovery s n ?X) ! k = rom ?X ! k"
      using Suc.prems(1) by (intro st(6)) auto
    moreover have "rom ?X ! k = rom b ! k"
      using k by (intro xk) auto
    ultimately show "rom (fp_reg_recovery s n ?X) ! k = rom b ! k" by simp
  qed
qed


lemma create_boot_rom_eq:
  assumes "priv s = PRV_U \<or> priv s = PRV_S \<or> priv s = PRV_M"
  shows "\<exists>b4. code_pos b4 = 30 \<and> data_pos b4 = 518 \<and> length (rom b4) = 1024
          \<and> create_boot_rom s m =
              (if data_pos (boot_rom_rest s m (boot_rom_fp s b4)) \<ge> 1024 then Inl EXIT_MINUS_6
               else if code_pos (boot_rom_rest s m (boot_rom_fp s b4)) \<ge> 512 then Inl EXIT_MINUS_6
               else Inr (rom (boot_rom_rest s m (boot_rom_fp s b4))))"
proof -
  let ?b4 = "create_csr64_recovery
      (create_csr64_recovery
        (create_csr12_recovery
          (create_csr64_recovery
            \<lparr>rom = replicate 1024 0, code_pos = 16, data_pos = 512\<rparr> 0x7b1 (pc s))
          0x7b0 (0x600 OR (if priv s = PRV_U then 0 else if priv s = PRV_S then 1 else 3)))
        0x300 (get_mstatus s (- 1)))
      0x301 (ucast (misa s) OR push_bit (unat (cur_xlen s) - 2) (ucast (mxl s)))"
  have n: "\<not> (priv s \<noteq> PRV_U \<and> priv s \<noteq> PRV_S \<and> priv s \<noteq> PRV_M)"
    using assms by blast
  have "code_pos ?b4 = 30 \<and> data_pos ?b4 = 518 \<and> length (rom ?b4) = 1024"
    by simp
  moreover have "create_boot_rom s m =
              (if data_pos (boot_rom_rest s m (boot_rom_fp s ?b4)) \<ge> 1024 then Inl EXIT_MINUS_6
               else if code_pos (boot_rom_rest s m (boot_rom_fp s ?b4)) \<ge> 512 then Inl EXIT_MINUS_6
               else Inr (rom (boot_rom_rest s m (boot_rom_fp s ?b4))))"
    unfolding create_boot_rom_def Let_def
    by (simp only: n if_False) simp
  ultimately show ?thesis by blast
qed

lemma boot_rom_fp_on:
  assumes f: "fs s \<noteq> 0" and c: "code_pos b = 30" and d: "data_pos b = 518"
    and l: "length (rom b) = 1024"
  shows "code_pos (boot_rom_fp s b) = 132 \<and> data_pos (boot_rom_fp s b) = 582
       \<and> length (rom (boot_rom_fp s b)) = 1024
       \<and> (\<forall>i<32. rom (boot_rom_fp s b) ! (518 + 2 * i) = ucast (fp_reg s ! i)
               \<and> rom (boot_rom_fp s b) ! (518 + 2 * i + 1) = ucast (drop_bit 32 (reg s ! i)))"
proof -
  let ?c3 = "create_csr12_recovery
               (create_csr12_recovery (create_csr12_recovery b 0x001 (ucast (fflags s)))
                  0x002 (ucast (frm s)))
               0x003 (ucast (fflags s OR push_bit 5 (ucast (frm s))))"
  have e: "boot_rom_fp s b = fold (fp_reg_recovery s) [0..<32] ?c3"
    using f by (simp only: boot_rom_fp_def Let_def if_True simp_thms)
  have c3: "code_pos ?c3 = of_nat 36" "data_pos ?c3 = of_nat 518" "length (rom ?c3) = 1024"
    by (simp_all add: c d l)
  have "code_pos (fold (fp_reg_recovery s) [0..<32] ?c3) = of_nat (36 + 3 * 32)
       \<and> data_pos (fold (fp_reg_recovery s) [0..<32] ?c3) = of_nat (518 + 2 * 32)
       \<and> length (rom (fold (fp_reg_recovery s) [0..<32] ?c3)) = length (rom ?c3)
       \<and> (\<forall>i<32. rom (fold (fp_reg_recovery s) [0..<32] ?c3) ! (518 + 2 * i) = ucast (fp_reg s ! i)
               \<and> rom (fold (fp_reg_recovery s) [0..<32] ?c3) ! (518 + 2 * i + 1) = ucast (drop_bit 32 (reg s ! i)))
       \<and> (\<forall>k. k < 36 \<or> (36 + 3 * 32 \<le> k \<and> k < 518) \<or> 518 + 2 * 32 \<le> k \<longrightarrow>
               rom (fold (fp_reg_recovery s) [0..<32] ?c3) ! k = rom ?c3 ! k)"
    by (rule fp_loop[OF c3(1) c3(2)]) (simp_all add: l)
  then show ?thesis
    unfolding e by (simp add: l)
qed

text \<open>
  What the data pool holds for the FP registers, for every snapshot state with the FPU on
  (\<open>fs\<close> not 0) and a privilege of U, S or M: the ROM is produced, and for each \<open>i\<close> below
  32 its word \<open>518 + 2 * i\<close> is the low word of \<open>fp_reg[i]\<close> and its word
  \<open>519 + 2 * i\<close> is the high word of the integer register \<open>reg[i]\<close>.
\<close>

lemma boot_rom_fp_data:
  assumes f: "fs s \<noteq> 0" and p: "priv s = PRV_U \<or> priv s = PRV_S \<or> priv s = PRV_M" and i: "i < 32"
  shows "\<exists>r. create_boot_rom s m = Inr r
           \<and> r ! (518 + 2 * i) = ucast (fp_reg s ! i)
           \<and> r ! (518 + 2 * i + 1) = ucast (drop_bit 32 (reg s ! i))"
proof -
  from create_boot_rom_eq[OF p, of m] obtain b4 where
    b4: "code_pos b4 = 30" "data_pos b4 = 518" "length (rom b4) = 1024"
    and e: "create_boot_rom s m =
              (if data_pos (boot_rom_rest s m (boot_rom_fp s b4)) \<ge> 1024 then Inl EXIT_MINUS_6
               else if code_pos (boot_rom_rest s m (boot_rom_fp s b4)) \<ge> 512 then Inl EXIT_MINUS_6
               else Inr (rom (boot_rom_rest s m (boot_rom_fp s b4))))"
    by blast
  note fp = boot_rom_fp_on[OF f b4]
  from fp have c5: "code_pos (boot_rom_fp s b4) = 132" and d5: "data_pos (boot_rom_fp s b4) = 582"
    by blast+
  from fp i have w: "rom (boot_rom_fp s b4) ! (518 + 2 * i) = ucast (fp_reg s ! i)"
    "rom (boot_rom_fp s b4) ! (518 + 2 * i + 1) = ucast (drop_bit 32 (reg s ! i))"
    by blast+
  have r: "create_boot_rom s m = Inr (rom (boot_rom_rest s m (boot_rom_fp s b4)))"
    unfolding e by (simp add: boot_rom_rest_pos c5 d5)
  have k1: "rom (boot_rom_rest s m (boot_rom_fp s b4)) ! (518 + 2 * i) = rom (boot_rom_fp s b4) ! (518 + 2 * i)"
    using i by (intro boot_rom_rest_data_frame[OF c5 d5]) simp_all
  have k2: "rom (boot_rom_rest s m (boot_rom_fp s b4)) ! (518 + 2 * i + 1) = rom (boot_rom_fp s b4) ! (518 + 2 * i + 1)"
    using i by (intro boot_rom_rest_data_frame[OF c5 d5]) simp_all
  show ?thesis
    using r k1 k2 w by simp
qed


lemma fp_snapshot_fields:
  "fs fp_snapshot = 3" "priv fp_snapshot = PRV_M" "pc fp_snapshot = 0x80000000"
  "fp_reg fp_snapshot ! Suc 0 = 0x3FF0000000000000" "reg fp_snapshot ! Suc 0 = 0x8000000012345678"
  by (simp_all add: fp_snapshot_def init_priv)

text \<open>
  C4.  The claim: the data pool holds both words of \<open>fp_reg[i]\<close>, so that \<open>FLD\<close>
  restores \<open>fi\<close>.  The code at one input: the snapshot state \<open>fp_snapshot\<close>, in M mode
  with the \<open>pc\<close> at the start of the main RAM, where \<open>f1\<close> is \<open>0x3FF0000000000000\<close>
  (1.0) and \<open>x1\<close> is \<open>0x8000000012345678\<close>.  With any machine and any boot RAM,
  \<open>riscv_cpu_serialize\<close> creates a new boot ROM for it, the ROM is the one of
  \<open>create_boot_rom\<close>, and its two words for \<open>f1\<close> are \<open>0\<close> and \<open>0x80000000\<close>: the low
  word of \<open>f1\<close> and the high word of \<open>x1\<close>, where the high word of \<open>f1\<close> is
  \<open>0x3FF00000\<close>.
\<close>

theorem boot_rom_fp_high_word_is_x_reg:
  "\<exists>r. riscv_cpu_serialize fp_snapshot m (Some boot_ram) True = Inr (New_boot_rom r)
       \<and> create_boot_rom fp_snapshot m = Inr r
       \<and> r ! 520 = 0 \<and> r ! 521 = 0x80000000
       \<and> (ucast (fp_reg fp_snapshot ! 1) :: 32 word) = 0
       \<and> (ucast (drop_bit 32 (fp_reg fp_snapshot ! 1)) :: 32 word) = 0x3FF00000"
proof -
  have f: "fs fp_snapshot \<noteq> 0" by (simp add: fp_snapshot_fields)
  have p: "priv fp_snapshot = PRV_U \<or> priv fp_snapshot = PRV_S \<or> priv fp_snapshot = PRV_M"
    by (simp add: fp_snapshot_fields)
  from boot_rom_fp_data[OF f p, of 1 m] obtain r where
    r: "create_boot_rom fp_snapshot m = Inr r"
    and lo: "r ! (518 + 2 * 1) = ucast (fp_reg fp_snapshot ! 1)"
    and hi: "r ! (518 + 2 * 1 + 1) = ucast (drop_bit 32 (reg fp_snapshot ! 1))"
    by auto
  have g: "riscv_cpu_serialize fp_snapshot m (Some boot_ram) True = Inr (New_boot_rom r)"
    by (simp add: riscv_cpu_serialize_def r fp_snapshot_fields)
  from lo have "r ! 520 = 0" by (simp add: fp_snapshot_fields)
  moreover from hi have "r ! 521 = 0x80000000" by (simp add: fp_snapshot_fields)
  ultimately show ?thesis
    using r g by (simp add: fp_snapshot_fields)
qed

text \<open>The same at the machine \<open>zero_machine\<close>, with an empty boot RAM of \<open>ROM_SIZE\<close>
  bytes at \<open>ROM_BASE_ADDR\<close>.\<close>

theorem boot_rom_fp_high_word_is_x_reg_witness:
  "\<exists>r. riscv_cpu_serialize fp_snapshot zero_machine
          (Some \<lparr>pr_addr = 0x10000, pr_size = 0x1000, pr_is_ram = True, pr_phys_mem = (\<lambda>_. 0)\<rparr>) True
        = Inr (New_boot_rom r)
       \<and> r ! 520 = 0 \<and> r ! 521 = 0x80000000"
  using boot_rom_fp_high_word_is_x_reg[of zero_machine
      "\<lparr>pr_addr = 0x10000, pr_size = 0x1000, pr_is_ram = True, pr_phys_mem = (\<lambda>_. 0)\<rparr>"]
  by blast

end
